theory Spec2Isabelle
  imports Complex_Main
begin

section \<open>JavaScript values\<close>

text \<open>
  The methods of \<^verbatim>\<open>server/src/models/Service.js\<close> read an untyped user profile
  (the JSON body of a request) and compare it with \<^verbatim>\<open>Mixed\<close> fields of the stored
  service. The values are modelled as JSON values plus \<^verbatim>\<open>undefined\<close>, which is what
  reading an absent property yields.

  A number is a rational, an infinity or NaN. Every IEEE double is one of these, and
  comparison of doubles is comparison of their values, so the comparisons below are exact;
  products of fee amounts are taken in the rationals (no rounding).
\<close>

datatype jsnum = JNaN | JNegInf | JFin rat | JPosInf

datatype jsval =
    JUndefined
  | JNull
  | JBool bool
  | JNum jsnum
  | JStr string
  | JArr "jsval list"
  | JObj "(string \<times> jsval) list"

type_synonym object = "(string \<times> jsval) list"

text \<open>\<^verbatim>\<open>obj[key]\<close> on a plain object: \<^verbatim>\<open>undefined\<close> when the key is absent.\<close>

definition get_prop :: "object \<Rightarrow> string \<Rightarrow> jsval" where
  "get_prop obj k = (case map_of obj k of None \<Rightarrow> JUndefined | Some v \<Rightarrow> v)"

text \<open>
  \<^verbatim>\<open>v.key\<close> for a truthy value \<open>v\<close> and a key that no built-in prototype defines
  (\<^verbatim>\<open>state\<close>, \<^verbatim>\<open>level\<close>): an object is looked up, every other value gives
  \<^verbatim>\<open>undefined\<close>.
\<close>

fun member :: "jsval \<Rightarrow> string \<Rightarrow> jsval" where
  "member (JObj obj) k = get_prop obj k"
| "member _ k = JUndefined"

text \<open>
  The conversions between strings and numbers (\<^verbatim>\<open>StringToNumber\<close>,
  \<^verbatim>\<open>Number::toString\<close>) and the parsing of a date belong to the JavaScript engine and
  its time zone; they are parameters of the model. \<open>parse_date\<close> gives the local calendar
  fields of \<^verbatim>\<open>new Date(v)\<close>, or \<open>None\<close> for an invalid date.
\<close>

record date =
  getFullYear :: int
  getMonth :: int
  getDate :: int

record host =
  str_to_num :: "string \<Rightarrow> jsnum"
  num_to_str :: "jsnum \<Rightarrow> string"
  parse_date :: "jsval \<Rightarrow> date option"

text \<open>\<^verbatim>\<open>ToBoolean\<close>.\<close>

fun truthy :: "jsval \<Rightarrow> bool" where
  "truthy JUndefined = False"
| "truthy JNull = False"
| "truthy (JBool b) = b"
| "truthy (JNum JNaN) = False"
| "truthy (JNum (JFin q)) = (q \<noteq> 0)"
| "truthy (JNum _) = True"
| "truthy (JStr s) = (s \<noteq> [])"
| "truthy (JArr _) = True"
| "truthy (JObj _) = True"

text \<open>\<^verbatim>\<open>Array.prototype.join\<close> on strings.\<close>

fun join :: "string \<Rightarrow> string list \<Rightarrow> string" where
  "join sep [] = []"
| "join sep [s] = s"
| "join sep (s # t # ts) = s @ sep @ join sep (t # ts)"

text \<open>
  \<^verbatim>\<open>ToString\<close>. An array is the join of its elements with a comma, where
  \<^verbatim>\<open>undefined\<close> and \<^verbatim>\<open>null\<close> elements give the empty string; a plain object is
  \<^verbatim>\<open>[object Object]\<close>.
\<close>

fun to_string :: "host \<Rightarrow> jsval \<Rightarrow> string"
  and elem_strings :: "host \<Rightarrow> jsval list \<Rightarrow> string list" where
  "to_string h JUndefined = ''undefined''"
| "to_string h JNull = ''null''"
| "to_string h (JBool b) = (if b then ''true'' else ''false'')"
| "to_string h (JNum n) = num_to_str h n"
| "to_string h (JStr s) = s"
| "to_string h (JArr vs) = join '','' (elem_strings h vs)"
| "to_string h (JObj obj) = ''[object Object]''"
| "elem_strings h [] = []"
| "elem_strings h (v # vs) =
     (if v = JUndefined \<or> v = JNull then [] else to_string h v) # elem_strings h vs"

text \<open>
  The conversion of an object to a primitive calls its \<^verbatim>\<open>toString\<close>. No value of a
  request or of a stored document is a function, so an object that has a property
  \<^verbatim>\<open>toString\<close> of its own has none to call, and its conversion raises a
  \<^verbatim>\<open>TypeError\<close>; so does the conversion of an array with such an element, which joins
  the strings of its elements. \<open>coercible\<close> holds of the values whose conversion
  returns.
\<close>

fun coercible :: "jsval \<Rightarrow> bool"
  and all_coercible :: "jsval list \<Rightarrow> bool" where
  "coercible (JArr vs) = all_coercible vs"
| "coercible (JObj obj) = (map_of obj ''toString'' = None)"
| "coercible v = True"
| "all_coercible [] = True"
| "all_coercible (v # vs) = (coercible v \<and> all_coercible vs)"

text \<open>
  \<^verbatim>\<open>ToPrimitive\<close> of a value whose conversion returns (arrays and plain objects become
  their strings). \<^verbatim>\<open>calculateFees\<close> and \<^verbatim>\<open>validateDocuments\<close>, which catch what is
  raised inside them, test \<open>coercible\<close> before they compare. \<^verbatim>\<open>checkEligibility\<close>
  has no handler: what a comparison raises leaves the method, and its model gives the
  result for the values that convert.
\<close>

fun to_primitive :: "host \<Rightarrow> jsval \<Rightarrow> jsval" where
  "to_primitive h (JArr vs) = JStr (to_string h (JArr vs))"
| "to_primitive h (JObj obj) = JStr (to_string h (JObj obj))"
| "to_primitive h v = v"

text \<open>\<^verbatim>\<open>ToNumber\<close> of a primitive.\<close>

fun to_number :: "host \<Rightarrow> jsval \<Rightarrow> jsnum" where
  "to_number h JUndefined = JNaN"
| "to_number h JNull = JFin 0"
| "to_number h (JBool b) = (if b then JFin 1 else JFin 0)"
| "to_number h (JNum n) = n"
| "to_number h (JStr s) = str_to_num h s"
| "to_number h v = to_number h (to_primitive h v)"

text \<open>Comparison of numbers; \<open>None\<close> is the \<^verbatim>\<open>undefined\<close> of a comparison with NaN.\<close>

fun num_lt :: "jsnum \<Rightarrow> jsnum \<Rightarrow> bool option" where
  "num_lt JNaN _ = None"
| "num_lt _ JNaN = None"
| "num_lt JPosInf _ = Some False"
| "num_lt _ JNegInf = Some False"
| "num_lt JNegInf _ = Some True"
| "num_lt _ JPosInf = Some True"
| "num_lt (JFin a) (JFin b) = Some (a < b)"

text \<open>Comparison of strings, unit by unit; a proper prefix is smaller.\<close>

fun str_lt :: "string \<Rightarrow> string \<Rightarrow> bool" where
  "str_lt [] [] = False"
| "str_lt [] (y # ys) = True"
| "str_lt (x # xs) [] = False"
| "str_lt (x # xs) (y # ys) =
     ((of_char x :: nat) < of_char y \<or> (x = y \<and> str_lt xs ys))"

text \<open>
  \<^verbatim>\<open>IsLessThan\<close>: two strings are compared as strings, everything else as numbers.
\<close>

definition is_less_than :: "host \<Rightarrow> jsval \<Rightarrow> jsval \<Rightarrow> bool option" where
  "is_less_than h x y =
     (case (to_primitive h x, to_primitive h y) of
        (JStr s, JStr t) \<Rightarrow> Some (str_lt s t)
      | (px, py) \<Rightarrow> num_lt (to_number h px) (to_number h py))"

text \<open>The operators \<^verbatim>\<open><\<close>, \<^verbatim>\<open>>\<close>, \<^verbatim>\<open><=\<close>, \<^verbatim>\<open>>=\<close>.\<close>

definition js_lt :: "host \<Rightarrow> jsval \<Rightarrow> jsval \<Rightarrow> bool" where
  "js_lt h x y = (is_less_than h x y = Some True)"

definition js_gt :: "host \<Rightarrow> jsval \<Rightarrow> jsval \<Rightarrow> bool" where
  "js_gt h x y = (is_less_than h y x = Some True)"

definition js_le :: "host \<Rightarrow> jsval \<Rightarrow> jsval \<Rightarrow> bool" where
  "js_le h x y = (is_less_than h y x = Some False)"

definition js_ge :: "host \<Rightarrow> jsval \<Rightarrow> jsval \<Rightarrow> bool" where
  "js_ge h x y = (is_less_than h x y = Some False)"

text \<open>
  \<^verbatim>\<open>===\<close> between a value of the request and a value of the stored service. Two
  arrays or objects are equal only when they are the same reference, which values from
  two sources never are.
\<close>

fun strict_eq :: "jsval \<Rightarrow> jsval \<Rightarrow> bool" where
  "strict_eq JUndefined JUndefined = True"
| "strict_eq JNull JNull = True"
| "strict_eq (JBool a) (JBool b) = (a = b)"
| "strict_eq (JNum a) (JNum b) = (a \<noteq> JNaN \<and> a = b)"
| "strict_eq (JStr s) (JStr t) = (s = t)"
| "strict_eq _ _ = False"

text \<open>Equality of numbers: NaN equals nothing.\<close>

definition num_eq :: "jsnum \<Rightarrow> jsnum \<Rightarrow> bool" where
  "num_eq a b = (a \<noteq> JNaN \<and> a = b)"

text \<open>
  \<^verbatim>\<open>v == s\<close> for a string \<open>s\<close>: a string is compared as it is, a number or a
  boolean with the number that \<open>s\<close> denotes, an array or an object through its string;
  \<^verbatim>\<open>null\<close> and \<^verbatim>\<open>undefined\<close> equal no string.
\<close>

fun loose_eq_str :: "host \<Rightarrow> jsval \<Rightarrow> string \<Rightarrow> bool" where
  "loose_eq_str h JUndefined s = False"
| "loose_eq_str h JNull s = False"
| "loose_eq_str h (JBool b) s = num_eq (to_number h (JBool b)) (str_to_num h s)"
| "loose_eq_str h (JNum n) s = num_eq n (str_to_num h s)"
| "loose_eq_str h (JStr t) s = (t = s)"
| "loose_eq_str h (JArr vs) s = (to_string h (JArr vs) = s)"
| "loose_eq_str h (JObj obj) s = (to_string h (JObj obj) = s)"

text \<open>
  \<^verbatim>\<open>strings.includes(v)\<close> for an array of strings of a stored document. The array is
  a Mongoose array, whose \<^verbatim>\<open>includes\<close> is \<^verbatim>\<open>indexOf(v) !== -1\<close> and whose
  \<^verbatim>\<open>indexOf\<close> compares with \<^verbatim>\<open>==\<close>.
\<close>

definition js_includes :: "host \<Rightarrow> string list \<Rightarrow> jsval \<Rightarrow> bool" where
  "js_includes h xs v = list_ex (loose_eq_str h v) xs"

text \<open>\<^verbatim>\<open>a || b\<close> on values.\<close>

definition js_or :: "jsval \<Rightarrow> jsval \<Rightarrow> jsval" where
  "js_or a b = (if truthy a then a else b)"

section \<open>Multilingual text\<close>

datatype lang =
  L_en | L_hi | L_bn | L_ta | L_te | L_mr | L_gu | L_kn | L_ml | L_pa | L_or | L_as

text \<open>
  A \<^verbatim>\<open>MultilingualTextSchema\<close> document: each language holds a string or is
  absent.
\<close>

type_synonym multilingual = "lang \<Rightarrow> string option"

text \<open>\<^verbatim>\<open>s || d\<close> for an optional string \<open>s\<close> (absent and empty are falsy).\<close>

fun str_or :: "string option \<Rightarrow> 'a \<Rightarrow> (string \<Rightarrow> 'a) \<Rightarrow> 'a" where
  "str_or None d f = d"
| "str_or (Some s) d f = (if s = [] then d else f s)"

text \<open>
  \<^verbatim>\<open>getFallbackText\<close> of \<^verbatim>\<open>getDetailsInLanguage\<close>, \<^verbatim>\<open>getServiceSummary\<close> and
  \<^verbatim>\<open>getStatusUpdateTemplate\<close>; \<open>None\<close> is \<^verbatim>\<open>null\<close>.
\<close>

definition getFallbackText :: "lang \<Rightarrow> multilingual option \<Rightarrow> string option" where
  "getFallbackText language field =
     (case field of
        None \<Rightarrow> None
      | Some f \<Rightarrow> str_or (f language) (str_or (f L_en) None Some) Some)"

section \<open>An example host\<close>

text \<open>
  A host for the worked examples: strings of decimal digits are the numbers they
  denote (the empty string is 0, as in JavaScript, everything else NaN), integers print
  in decimal, and a date is an ISO calendar date \<^verbatim>\<open>YYYY-MM-DD\<close> read in the local
  zone, with months counted from 0 as \<^verbatim>\<open>getMonth\<close> does.
\<close>

definition digit_val :: "char \<Rightarrow> int option" where
  "digit_val c =
     (let n = (of_char c :: int) in if 48 \<le> n \<and> n \<le> 57 then Some (n - 48) else None)"

fun digits_val :: "int \<Rightarrow> string \<Rightarrow> int option" where
  "digits_val acc [] = Some acc"
| "digits_val acc (c # cs) =
     (case digit_val c of None \<Rightarrow> None | Some d \<Rightarrow> digits_val (10 * acc + d) cs)"

definition decimal_to_num :: "string \<Rightarrow> jsnum" where
  "decimal_to_num s = (case digits_val 0 s of None \<Rightarrow> JNaN | Some n \<Rightarrow> JFin (of_int n))"

function int_digits :: "int \<Rightarrow> string" where
  "int_digits i =
     (if i < 10 then [char_of (48 + i)]
      else int_digits (i div 10) @ [char_of (48 + i mod 10)])"
  by pat_completeness auto
termination
  by (relation "measure nat") auto

declare int_digits.simps [simp del]

definition int_to_str :: "int \<Rightarrow> string" where
  "int_to_str i = (if i < 0 then CHR ''-'' # int_digits (- i) else int_digits i)"

fun num_to_decimal :: "jsnum \<Rightarrow> string" where
  "num_to_decimal JNaN = ''NaN''"
| "num_to_decimal JPosInf = ''Infinity''"
| "num_to_decimal JNegInf = ''-Infinity''"
| "num_to_decimal (JFin q) = int_to_str (floor q)"

definition iso_date :: "jsval \<Rightarrow> date option" where
  "iso_date v =
     (case v of
        JStr s \<Rightarrow>
          (if length s = 10 \<and> s ! 4 = CHR ''-'' \<and> s ! 7 = CHR ''-'' then
             (case (digits_val 0 (take 4 s), digits_val 0 (take 2 (drop 5 s)),
                    digits_val 0 (drop 8 s)) of
                (Some y, Some m, Some d) \<Rightarrow>
                  Some \<lparr>getFullYear = y, getMonth = m - 1, getDate = d\<rparr>
              | _ \<Rightarrow> None)
           else None)
      | _ \<Rightarrow> None)"

definition example_host :: host where
  "example_host =
     \<lparr>str_to_num = decimal_to_num, num_to_str = num_to_decimal, parse_date = iso_date\<rparr>"

section \<open>Eligibility\<close>

text \<open>
  \<^verbatim>\<open>EligibilityCriteriaSchema\<close>. \<^verbatim>\<open>criteriaType\<close> and \<^verbatim>\<open>validationMethod\<close> are
  enumerations of the schema; \<^verbatim>\<open>minValue\<close> and \<^verbatim>\<open>maxValue\<close> are \<^verbatim>\<open>Mixed\<close>, with
  \<^verbatim>\<open>undefined\<close> for a bound that was never set.
\<close>

datatype criteria_type =
    CT_age | CT_income | CT_residence | CT_education | CT_gender
  | CT_marital | CT_occupation | CT_category | CT_disability | CT_other

fun criteria_type_name :: "criteria_type \<Rightarrow> string" where
  "criteria_type_name CT_age = ''age''"
| "criteria_type_name CT_income = ''income''"
| "criteria_type_name CT_residence = ''residence''"
| "criteria_type_name CT_education = ''education''"
| "criteria_type_name CT_gender = ''gender''"
| "criteria_type_name CT_marital = ''marital''"
| "criteria_type_name CT_occupation = ''occupation''"
| "criteria_type_name CT_category = ''category''"
| "criteria_type_name CT_disability = ''disability''"
| "criteria_type_name CT_other = ''other''"

datatype validation_method =
    VM_range | VM_exact | VM_minimum | VM_maximum | VM_list | VM_boolean | VM_custom

fun validation_method_name :: "validation_method \<Rightarrow> string" where
  "validation_method_name VM_range = ''range''"
| "validation_method_name VM_exact = ''exact''"
| "validation_method_name VM_minimum = ''minimum''"
| "validation_method_name VM_maximum = ''maximum''"
| "validation_method_name VM_list = ''list''"
| "validation_method_name VM_boolean = ''boolean''"
| "validation_method_name VM_custom = ''custom''"

record criterion =
  criteriaType :: criteria_type
  criteria_name :: multilingual
  minValue :: jsval
  maxValue :: jsval
  allowedValues :: "string list"
  validationMethod :: validation_method

record missing_entry =
  missing_field :: string
  missing_criteria :: string

record failed_entry =
  failed_type :: criteria_type
  failed_name :: string
  failed_userValue :: jsval
  failed_required :: string

text \<open>The tri-state \<^verbatim>\<open>eligible\<close>: \<^verbatim>\<open>true\<close>, \<^verbatim>\<open>false\<close> or \<^verbatim>\<open>'unknown'\<close>.\<close>

datatype eligibility = Eligible | NotEligible | Unknown

text \<open>
  The object \<^verbatim>\<open>checkEligibility\<close> returns. The two lists are absent from the result for
  a service without criteria.
\<close>

record eligibility_result =
  eligible :: eligibility
  message :: string
  failedCriteria :: "failed_entry list option"
  missingData :: "missing_entry list option"

text \<open>The two lists of \<^verbatim>\<open>results\<close> that the loop over the criteria fills.\<close>

record results =
  failed :: "failed_entry list"
  missing :: "missing_entry list"

text \<open>
  The age of the \<^verbatim>\<open>age\<close> case; \<open>None\<close> is an invalid birth date, whose fields are
  NaN, so that the age is NaN.
\<close>

fun age_of :: "date \<Rightarrow> date option \<Rightarrow> jsnum" where
  "age_of today None = JNaN"
| "age_of today (Some birthDate) =
     JFin (of_int (getFullYear today - getFullYear birthDate -
       (if getMonth today < getMonth birthDate \<or>
           (getMonth today = getMonth birthDate \<and> getDate today < getDate birthDate)
        then 1 else 0)))"

text \<open>
  The \<^verbatim>\<open>switch\<close> on \<^verbatim>\<open>criteria.criteriaType\<close>: the user value, or \<open>None\<close> where the
  \<^verbatim>\<open>age\<close> case returns early for want of a \<^verbatim>\<open>dateOfBirth\<close>. \<open>today\<close> is
  \<^verbatim>\<open>new Date()\<close>. The \<^verbatim>\<open>default\<close> case is reached by the type \<^verbatim>\<open>other\<close> alone,
  whose name is in lower case already.
\<close>

fun user_value :: "host \<Rightarrow> date \<Rightarrow> object \<Rightarrow> criteria_type \<Rightarrow> jsval option" where
  "user_value h today userData CT_age =
     (if \<not> truthy (get_prop userData ''dateOfBirth'') then None
      else Some (JNum (age_of today (parse_date h (get_prop userData ''dateOfBirth'')))))"
| "user_value h today userData CT_income = Some (get_prop userData ''income'')"
| "user_value h today userData CT_residence =
     Some (if truthy (get_prop userData ''address'')
           then member (get_prop userData ''address'') ''state'' else JUndefined)"
| "user_value h today userData CT_education =
     Some (if truthy (get_prop userData ''education'')
           then member (get_prop userData ''education'') ''level'' else JUndefined)"
| "user_value h today userData CT_gender = Some (get_prop userData ''gender'')"
| "user_value h today userData CT_marital = Some (get_prop userData ''maritalStatus'')"
| "user_value h today userData CT_occupation = Some (get_prop userData ''occupation'')"
| "user_value h today userData CT_category = Some (get_prop userData ''category'')"
| "user_value h today userData CT_disability = Some (get_prop userData ''hasDisability'')"
| "user_value h today userData CT_other =
     Some (get_prop userData (criteria_type_name CT_other))"

text \<open>The \<^verbatim>\<open>switch\<close> on \<^verbatim>\<open>criteria.validationMethod\<close>: \<^verbatim>\<open>criteriaResult\<close>.\<close>

fun criteriaResult :: "host \<Rightarrow> criterion \<Rightarrow> jsval \<Rightarrow> validation_method \<Rightarrow> bool" where
  "criteriaResult h criteria userValue VM_range =
     ((strict_eq (minValue criteria) JNull \<or> js_ge h userValue (minValue criteria)) \<and>
      (strict_eq (maxValue criteria) JNull \<or> js_le h userValue (maxValue criteria)))"
| "criteriaResult h criteria userValue VM_exact = strict_eq userValue (minValue criteria)"
| "criteriaResult h criteria userValue VM_minimum = js_ge h userValue (minValue criteria)"
| "criteriaResult h criteria userValue VM_maximum = js_le h userValue (maxValue criteria)"
| "criteriaResult h criteria userValue VM_list =
     js_includes h (allowedValues criteria) userValue"
| "criteriaResult h criteria userValue VM_boolean = truthy userValue"
| "criteriaResult h criteria userValue VM_custom = True"

text \<open>The \<^verbatim>\<open>required\<close> text of a failed criterion.\<close>

definition required_text :: "host \<Rightarrow> criterion \<Rightarrow> string" where
  "required_text h criteria =
     (if validationMethod criteria = VM_range then
        ''Between '' @ to_string h (minValue criteria) @ '' and '' @
          to_string h (maxValue criteria)
      else if validationMethod criteria = VM_list then
        ''One of: '' @ join '', '' (allowedValues criteria)
      else
        validation_method_name (validationMethod criteria) @ '': '' @
          to_string h (js_or (js_or (minValue criteria) (maxValue criteria))
            (JStr ''Custom validation'')))"

definition criteriaName :: "criterion \<Rightarrow> string" where
  "criteriaName criteria = str_or (criteria_name criteria L_en) ''Unnamed criterion'' id"

text \<open>The body of the \<^verbatim>\<open>forEach\<close> over the criteria.\<close>

definition check_criterion :: "host \<Rightarrow> date \<Rightarrow> object \<Rightarrow> results \<Rightarrow> criterion \<Rightarrow> results" where
  "check_criterion h today userData res criteria =
     (case user_value h today userData (criteriaType criteria) of
        None \<Rightarrow>
          res\<lparr>missing := missing res @
            [\<lparr>missing_field = ''dateOfBirth'', missing_criteria = criteriaName criteria\<rparr>]\<rparr>
      | Some userValue \<Rightarrow>
          if userValue = JUndefined then
            res\<lparr>missing := missing res @
              [\<lparr>missing_field = criteria_type_name (criteriaType criteria),
                missing_criteria = criteriaName criteria\<rparr>]\<rparr>
          else if \<not> criteriaResult h criteria userValue (validationMethod criteria) then
            res\<lparr>failed := failed res @
              [\<lparr>failed_type = criteriaType criteria,
                failed_name = criteriaName criteria,
                failed_userValue = userValue,
                failed_required = required_text h criteria\<rparr>]\<rparr>
          else res)"

definition checkEligibility ::
  "host \<Rightarrow> date \<Rightarrow> criterion list \<Rightarrow> object \<Rightarrow> eligibility_result" where
  "checkEligibility h today eligibilityCriteria userData =
     (if eligibilityCriteria = [] then
        \<lparr>eligible = Eligible, message = ''No eligibility criteria specified'',
         failedCriteria = None, missingData = None\<rparr>
      else
        let res = foldl (check_criterion h today userData)
                    \<lparr>failed = [], missing = []\<rparr> eligibilityCriteria
        in if failed res \<noteq> [] then
             \<lparr>eligible = NotEligible, message = ''User does not meet eligibility criteria'',
              failedCriteria = Some (failed res), missingData = Some (missing res)\<rparr>
           else if missing res \<noteq> [] then
             \<lparr>eligible = Unknown,
              message = ''Missing required information to determine eligibility'',
              failedCriteria = Some (failed res), missingData = Some (missing res)\<rparr>
           else
             \<lparr>eligible = Eligible, message = ''User meets all eligibility criteria'',
              failedCriteria = Some (failed res), missingData = Some (missing res)\<rparr>)"

section \<open>Exceptions\<close>

text \<open>
  A property read of \<^verbatim>\<open>undefined\<close> and a call of a method that a value does not have
  raise a \<^verbatim>\<open>TypeError\<close>. \<^verbatim>\<open>try { body } catch (error) { return r }\<close> around a body that
  returns is \<open>try_catch\<close>.
\<close>

datatype exn = TypeError

definition try_catch :: "exn + 'a \<Rightarrow> (exn \<Rightarrow> exn + 'a) \<Rightarrow> exn + 'a" where
  "try_catch body handler = (case body of Inl e \<Rightarrow> handler e | Inr r \<Rightarrow> Inr r)"

section \<open>Fees\<close>

text \<open>
  \<^verbatim>\<open>FeeSchema\<close>. The description of a waiver is a nested document of its own and is
  \<^verbatim>\<open>undefined\<close> when it was not given; so is the description of the fee.
\<close>

record variable_factor =
  factor :: "string option"
  calculation :: "string option"

record waiver =
  eligibility :: "string list"
  waiver_description :: "multilingual option"

record fee =
  feeType :: string
  fee_name :: multilingual
  fee_description :: "multilingual option"
  amount :: rat
  currency :: "string option"
  variableFactors :: "variable_factor list"
  fee_waiver :: "waiver option"

record waiver_entry =
  waived_feeType :: string
  waived_name :: "string option"
  waived_amount :: rat
  waived_reason :: string

record breakdown_entry =
  item_feeType :: string
  item_name :: "string option"
  item_amount :: rat
  item_description :: "string option"

text \<open>
  The object \<^verbatim>\<open>calculateFees\<close> returns: \<^verbatim>\<open>waivers\<close> is absent from the result for a
  service without fees and from the result of the \<^verbatim>\<open>catch\<close> block.
\<close>

record fee_result =
  totalAmount :: rat
  result_currency :: string
  breakdown :: "breakdown_entry list"
  waivers :: "waiver_entry list option"
  fee_message :: "string option"
  fee_error :: "string option"

text \<open>The part of \<^verbatim>\<open>result\<close> that the loop over the fees updates.\<close>

record fee_acc =
  acc_total :: rat
  acc_breakdown :: "breakdown_entry list"
  acc_waivers :: "waiver_entry list"

text \<open>The callback of \<^verbatim>\<open>fee.waiver.eligibility.some\<close>.\<close>

definition category_matches :: "host \<Rightarrow> object \<Rightarrow> string \<Rightarrow> bool" where
  "category_matches h userData category =
     (if category = ''bpl'' \<and> truthy (get_prop userData ''isBPL'') then True
      else if category = ''senior'' \<and> js_ge h (get_prop userData ''age'') (JNum (JFin 60))
        then True
      else if category = ''student'' \<and> truthy (get_prop userData ''isStudent'') then True
      else if category = ''disability'' \<and> truthy (get_prop userData ''hasDisability'')
        then True
      else if category = ''female'' \<and> strict_eq (get_prop userData ''gender'') (JStr ''female'')
        then True
      else False)"

text \<open>
  \<^verbatim>\<open>fee.waiver.eligibility.some\<close>: the categories are tested in order, up to the first
  that matches. The test of \<^verbatim>\<open>senior\<close> compares \<^verbatim>\<open>userData.age\<close> with 60, and raises
  when the age does not convert.
\<close>

definition category_raises :: "object \<Rightarrow> string \<Rightarrow> bool" where
  "category_raises userData category =
     (category = ''senior'' \<and> \<not> coercible (get_prop userData ''age''))"

fun some_category :: "host \<Rightarrow> object \<Rightarrow> string list \<Rightarrow> exn + bool" where
  "some_category h userData [] = Inr False"
| "some_category h userData (category # categories) =
     (if category_raises userData category then Inl TypeError
      else if category_matches h userData category then Inr True
      else some_category h userData categories)"

text \<open>
  The waiver check of one fee: whether the fee is waived, with the entry pushed on
  \<^verbatim>\<open>result.waivers\<close>. Reading \<^verbatim>\<open>.en\<close> of an absent description raises.
\<close>

definition check_waiver :: "host \<Rightarrow> object \<Rightarrow> fee_acc \<Rightarrow> fee \<Rightarrow> exn + bool \<times> fee_acc" where
  "check_waiver h userData result fee =
     (case fee_waiver fee of
        None \<Rightarrow> Inr (False, result)
      | Some w \<Rightarrow>
          if eligibility w \<noteq> [] then
            (case some_category h userData (eligibility w) of
               Inl e \<Rightarrow> Inl e
             | Inr eligibleForWaiver \<Rightarrow>
                 if eligibleForWaiver then
                   (case waiver_description w of
                      None \<Rightarrow> Inl TypeError
                    | Some d \<Rightarrow>
                        Inr (True, result\<lparr>acc_waivers := acc_waivers result @
                          [\<lparr>waived_feeType = feeType fee,
                            waived_name = fee_name fee L_en,
                            waived_amount = amount fee,
                            waived_reason =
                              str_or (d L_en) ''Eligible for fee waiver'' id\<rparr>]\<rparr>))
                 else Inr (False, result))
          else Inr (False, result))"

text \<open>The callback of \<^verbatim>\<open>fee.variableFactors.forEach\<close>, on the running \<^verbatim>\<open>feeAmount\<close>.\<close>

definition apply_factor :: "host \<Rightarrow> object \<Rightarrow> rat \<Rightarrow> variable_factor \<Rightarrow> rat" where
  "apply_factor h userData feeAmount f =
     (let income = get_prop userData ''income'';
          age = get_prop userData ''age'';
          feeAmount1 =
            (if factor f = Some ''income'' \<and> truthy income then
               if js_lt h income (JNum (JFin 300000)) then feeAmount * (1 / 2)
               else if js_gt h income (JNum (JFin 1000000)) then feeAmount * (3 / 2)
               else feeAmount
             else feeAmount)
      in if factor f = Some ''age'' \<and> truthy age then
           if js_lt h age (JNum (JFin 18)) then feeAmount1 * (1 / 2)
           else if js_ge h age (JNum (JFin 60)) then feeAmount1 * (3 / 4)
           else feeAmount1
         else feeAmount1)"

text \<open>
  \<^verbatim>\<open>fee.variableFactors.forEach\<close>. A factor compares the income or the age when the
  factor has its name and the value is truthy, and the comparison raises when the value
  does not convert.
\<close>

definition factor_raises :: "object \<Rightarrow> variable_factor \<Rightarrow> bool" where
  "factor_raises userData f =
     ((factor f = Some ''income'' \<and> truthy (get_prop userData ''income'') \<and>
       \<not> coercible (get_prop userData ''income'')) \<or>
      (factor f = Some ''age'' \<and> truthy (get_prop userData ''age'') \<and>
       \<not> coercible (get_prop userData ''age'')))"

fun apply_factors :: "host \<Rightarrow> object \<Rightarrow> rat \<Rightarrow> variable_factor list \<Rightarrow> exn + rat" where
  "apply_factors h userData feeAmount [] = Inr feeAmount"
| "apply_factors h userData feeAmount (f # fs) =
     (if factor_raises userData f then Inl TypeError
      else apply_factors h userData (apply_factor h userData feeAmount f) fs)"

text \<open>The body of the \<^verbatim>\<open>forEach\<close> over the fees.\<close>

definition process_fee :: "host \<Rightarrow> object \<Rightarrow> fee_acc \<Rightarrow> fee \<Rightarrow> exn + fee_acc" where
  "process_fee h userData result fee =
     (case check_waiver h userData result fee of
        Inl e \<Rightarrow> Inl e
      | Inr (waived, result1) \<Rightarrow>
          if \<not> waived then
            (case apply_factors h userData (amount fee) (variableFactors fee) of
               Inl e \<Rightarrow> Inl e
             | Inr feeAmount \<Rightarrow>
                 Inr (result1\<lparr>
                   acc_breakdown := acc_breakdown result1 @
                     [\<lparr>item_feeType = feeType fee,
                       item_name = fee_name fee L_en,
                       item_amount = feeAmount,
                       item_description =
                         (case fee_description fee of None \<Rightarrow> None | Some d \<Rightarrow> d L_en)\<rparr>],
                   acc_total := acc_total result1 + feeAmount\<rparr>))
          else Inr result1)"

fun process_fees :: "host \<Rightarrow> object \<Rightarrow> fee_acc \<Rightarrow> fee list \<Rightarrow> exn + fee_acc" where
  "process_fees h userData result [] = Inr result"
| "process_fees h userData result (fee # fees) =
     (case process_fee h userData result fee of
        Inl e \<Rightarrow> Inl e
      | Inr result1 \<Rightarrow> process_fees h userData result1 fees)"

definition calculateFees :: "host \<Rightarrow> fee list \<Rightarrow> object \<Rightarrow> exn + fee_result" where
  "calculateFees h fees userData =
     (case fees of
        [] \<Rightarrow>
          Inr \<lparr>totalAmount = 0, result_currency = ''INR'', breakdown = [], waivers = None,
               fee_message = Some ''No fees associated with this service'',
               fee_error = None\<rparr>
      | first # _ \<Rightarrow>
          try_catch
            (case process_fees h userData
                    \<lparr>acc_total = 0, acc_breakdown = [], acc_waivers = []\<rparr> fees of
               Inl e \<Rightarrow> Inl e
             | Inr result \<Rightarrow>
                 Inr \<lparr>totalAmount = acc_total result,
                      result_currency = str_or (currency first) ''INR'' id,
                      breakdown = acc_breakdown result,
                      waivers = Some (acc_waivers result),
                      fee_message = None, fee_error = None\<rparr>)
            (\<lambda>error.
               Inr \<lparr>totalAmount = 0, result_currency = ''INR'', breakdown = [],
                    waivers = None, fee_message = None,
                    fee_error = Some ''Error calculating fees''\<rparr>))"

section \<open>Documents\<close>

text \<open>
  \<^verbatim>\<open>RequirementSchema\<close>, and a submitted document \<^verbatim>\<open>{type, file, sizeKB}\<close> whose
  three properties are whatever the request holds, \<^verbatim>\<open>undefined\<close> when it holds none.
\<close>

record requirement =
  documentType :: string
  requirement_name :: multilingual
  isMandatory :: bool
  allowedFileTypes :: "string list"
  maxFileSizeKB :: "rat option"

record document =
  doc_type :: jsval
  doc_file :: jsval
  doc_sizeKB :: jsval

text \<open>
  An element of the \<^verbatim>\<open>documents\<close> array: \<^verbatim>\<open>null\<close>, of which no property can be
  read, or a value with its three properties.
\<close>

datatype element = Null | Document document

record mandatory_entry =
  mandatory_type :: string
  mandatory_name :: "string option"

record invalid_entry =
  invalid_type :: jsval
  invalid_reason :: string

record valid_entry =
  valid_type :: jsval
  valid_name :: "string option"

text \<open>The \<^verbatim>\<open>result\<close> object that the two passes of \<^verbatim>\<open>validateDocuments\<close> fill.\<close>

record validation =
  valid :: bool
  validDocuments :: "valid_entry list"
  invalidDocuments :: "invalid_entry list"
  missingMandatory :: "mandatory_entry list"

text \<open>
  The three shapes of what \<^verbatim>\<open>validateDocuments\<close> returns: for an argument that is not
  an array (\<^verbatim>\<open>valid: false\<close>, a message and the types of the mandatory requirements),
  after the two passes (the result and its message), and from the \<^verbatim>\<open>catch\<close> block
  (\<^verbatim>\<open>valid: false\<close>, an error and a message).
\<close>

datatype validation_result =
    NoDocuments string "string list"
  | Validated validation string
  | ValidationFailed string string

fun result_valid :: "validation_result \<Rightarrow> bool" where
  "result_valid (NoDocuments msg types) = False"
| "result_valid (Validated result msg) = valid result"
| "result_valid (ValidationFailed err msg) = False"

text \<open>\<^verbatim>\<open>s.split(c)\<close> for a one-character separator, and \<^verbatim>\<open>toLowerCase\<close> on ASCII.\<close>

fun split :: "char \<Rightarrow> string \<Rightarrow> string list" where
  "split c [] = [[]]"
| "split c (x # xs) =
     (if x = c then [] # split c xs
      else (case split c xs of [] \<Rightarrow> [[x]] | s # ss \<Rightarrow> (x # s) # ss))"

definition to_lower :: "char \<Rightarrow> char" where
  "to_lower c =
     (let n = (of_char c :: nat) in if 65 \<le> n \<and> n \<le> 90 then char_of (n + 32) else c)"

text \<open>
  \<^verbatim>\<open>document.file.split('.').pop().toLowerCase()\<close>: only a string has a
  \<^verbatim>\<open>split\<close> method.
\<close>

fun fileExtension :: "jsval \<Rightarrow> exn + string" where
  "fileExtension (JStr s) = Inr (map to_lower (last (split CHR ''.'' s)))"
| "fileExtension _ = Inl TypeError"

text \<open>
  \<^verbatim>\<open>documents.some(doc => doc.type === requirement.documentType)\<close>: the elements
  are tested in order, up to the first that matches, and the test of \<^verbatim>\<open>null\<close> raises.
\<close>

fun some_document :: "element list \<Rightarrow> string \<Rightarrow> exn + bool" where
  "some_document [] required = Inr False"
| "some_document (Null # documents) required = Inl TypeError"
| "some_document (Document doc # documents) required =
     (if strict_eq (doc_type doc) (JStr required) then Inr True
      else some_document documents required)"

text \<open>The first pass: the body of the \<^verbatim>\<open>forEach\<close> over the requirements, and the loop.\<close>

definition check_mandatory ::
  "element list \<Rightarrow> validation \<Rightarrow> requirement \<Rightarrow> exn + validation" where
  "check_mandatory documents result req =
     (if isMandatory req then
        (case some_document documents (documentType req) of
           Inl e \<Rightarrow> Inl e
         | Inr found \<Rightarrow>
             if \<not> found then
               Inr (result\<lparr>missingMandatory := missingMandatory result @
                          [\<lparr>mandatory_type = documentType req,
                            mandatory_name = requirement_name req L_en\<rparr>],
                        valid := False\<rparr>)
             else Inr result)
      else Inr result)"

fun check_mandatories ::
  "element list \<Rightarrow> validation \<Rightarrow> requirement list \<Rightarrow> exn + validation" where
  "check_mandatories documents result [] = Inr result"
| "check_mandatories documents result (req # reqs) =
     (case check_mandatory documents result req of
        Inl e \<Rightarrow> Inl e
      | Inr result1 \<Rightarrow> check_mandatories documents result1 reqs)"

text \<open>
  The second pass: the body of the \<^verbatim>\<open>forEach\<close> over the documents. The size is
  compared when the requirement has a limit that is truthy, and the comparison raises when
  \<^verbatim>\<open>document.sizeKB\<close> does not convert. The read of \<^verbatim>\<open>document.type\<close> raises when
  the element is \<^verbatim>\<open>null\<close>.
\<close>

definition add_valid :: "validation \<Rightarrow> requirement \<Rightarrow> document \<Rightarrow> validation" where
  "add_valid result req doc =
     result\<lparr>validDocuments := validDocuments result @
       [\<lparr>valid_type = doc_type doc, valid_name = requirement_name req L_en\<rparr>]\<rparr>"

definition check_size ::
  "host \<Rightarrow> validation \<Rightarrow> requirement \<Rightarrow> document \<Rightarrow> exn + validation" where
  "check_size h result req doc =
     (case maxFileSizeKB req of
        None \<Rightarrow> Inr (add_valid result req doc)
      | Some m \<Rightarrow>
          if m \<noteq> 0 then
            if \<not> coercible (doc_sizeKB doc) then Inl TypeError
            else if js_gt h (doc_sizeKB doc) (JNum (JFin m)) then
              Inr (result\<lparr>invalidDocuments := invalidDocuments result @
                         [\<lparr>invalid_type = doc_type doc,
                           invalid_reason = ''File too large. Maximum size: '' @
                             num_to_str h (JFin m) @ ''KB''\<rparr>],
                       valid := False\<rparr>)
            else Inr (add_valid result req doc)
          else Inr (add_valid result req doc))"

definition check_object ::
  "host \<Rightarrow> requirement list \<Rightarrow> validation \<Rightarrow> document \<Rightarrow> exn + validation" where
  "check_object h requirements result doc =
     (case List.find (\<lambda>r. strict_eq (JStr (documentType r)) (doc_type doc)) requirements of
        None \<Rightarrow>
          Inr (result\<lparr>invalidDocuments := invalidDocuments result @
                 [\<lparr>invalid_type = doc_type doc,
                   invalid_reason = ''Document type not required for this service''\<rparr>]\<rparr>)
      | Some req \<Rightarrow>
          if allowedFileTypes req \<noteq> [] then
            (case fileExtension (doc_file doc) of
               Inl e \<Rightarrow> Inl e
             | Inr ext \<Rightarrow>
                 if \<not> js_includes h (allowedFileTypes req) (JStr ext) then
                   Inr (result\<lparr>invalidDocuments := invalidDocuments result @
                          [\<lparr>invalid_type = doc_type doc,
                            invalid_reason = ''Invalid file type. Allowed: '' @
                              join '', '' (allowedFileTypes req)\<rparr>],
                        valid := False\<rparr>)
                 else check_size h result req doc)
          else check_size h result req doc)"

fun check_document ::
  "host \<Rightarrow> requirement list \<Rightarrow> validation \<Rightarrow> element \<Rightarrow> exn + validation" where
  "check_document h requirements result Null = Inl TypeError"
| "check_document h requirements result (Document doc) =
     check_object h requirements result doc"

fun check_documents ::
  "host \<Rightarrow> requirement list \<Rightarrow> validation \<Rightarrow> element list \<Rightarrow> exn + validation" where
  "check_documents h requirements result [] = Inr result"
| "check_documents h requirements result (doc # docs) =
     (case check_document h requirements result doc of
        Inl e \<Rightarrow> Inl e
      | Inr result1 \<Rightarrow> check_documents h requirements result1 docs)"

definition result_message :: "validation \<Rightarrow> string" where
  "result_message result =
     (if valid result then ''All required documents validated successfully''
      else if missingMandatory result \<noteq> [] then ''Missing mandatory documents''
      else ''Some documents failed validation'')"

text \<open>
  \<^verbatim>\<open>validateDocuments\<close>. The argument is \<open>Some\<close> of the documents when it is an
  array, and \<open>None\<close> when \<^verbatim>\<open>!documents || !Array.isArray(documents)\<close> holds.
\<close>

definition validateDocuments ::
  "host \<Rightarrow> requirement list \<Rightarrow> element list option \<Rightarrow> exn + validation_result" where
  "validateDocuments h requirements documents =
     (case documents of
        None \<Rightarrow>
          Inr (NoDocuments ''No documents provided or invalid format''
                 (map documentType (filter isMandatory requirements)))
      | Some docs \<Rightarrow>
          try_catch
            (case check_mandatories docs
                    \<lparr>valid = True, validDocuments = [], invalidDocuments = [],
                     missingMandatory = []\<rparr> requirements of
               Inl e \<Rightarrow> Inl e
             | Inr result0 \<Rightarrow>
                 (case check_documents h requirements result0 docs of
                    Inl e \<Rightarrow> Inl e
                  | Inr result \<Rightarrow> Inr (Validated result (result_message result))))
            (\<lambda>error.
               Inr (ValidationFailed ''Error validating documents''
                      ''An error occurred during document validation'')))"

section \<open>Outcomes of one criterion\<close>

text \<open>
  What the loop of \<^verbatim>\<open>checkEligibility\<close> does with one criterion, as predicates of
  the criterion: its data are missing when the \<^verbatim>\<open>age\<close> case returned early or the user
  value is \<^verbatim>\<open>undefined\<close>; it fails when it is evaluated and \<^verbatim>\<open>criteriaResult\<close> is
  false.
\<close>

definition data_missing :: "host \<Rightarrow> date \<Rightarrow> object \<Rightarrow> criterion \<Rightarrow> bool" where
  "data_missing h today userData c =
     (case user_value h today userData (criteriaType c) of
        None \<Rightarrow> True
      | Some v \<Rightarrow> v = JUndefined)"

definition criterion_fails :: "host \<Rightarrow> date \<Rightarrow> object \<Rightarrow> criterion \<Rightarrow> bool" where
  "criterion_fails h today userData c =
     (case user_value h today userData (criteriaType c) of
        None \<Rightarrow> False
      | Some v \<Rightarrow> v \<noteq> JUndefined \<and> \<not> criteriaResult h c v (validationMethod c))"

definition missing_entry_of :: "host \<Rightarrow> date \<Rightarrow> object \<Rightarrow> criterion \<Rightarrow> missing_entry" where
  "missing_entry_of h today userData c =
     \<lparr>missing_field =
        (case user_value h today userData (criteriaType c) of
           None \<Rightarrow> ''dateOfBirth''
         | Some v \<Rightarrow> criteria_type_name (criteriaType c)),
      missing_criteria = criteriaName c\<rparr>"

definition failed_entry_of :: "host \<Rightarrow> date \<Rightarrow> object \<Rightarrow> criterion \<Rightarrow> failed_entry" where
  "failed_entry_of h today userData c =
     \<lparr>failed_type = criteriaType c,
      failed_name = criteriaName c,
      failed_userValue =
        (case user_value h today userData (criteriaType c) of
           None \<Rightarrow> JUndefined
         | Some v \<Rightarrow> v),
      failed_required = required_text h c\<rparr>"

text \<open>A text that is present and not empty: what \<^verbatim>\<open>||\<close> keeps.\<close>

definition present_nonempty :: "string option \<Rightarrow> bool" where
  "present_nonempty t = (case t of None \<Rightarrow> False | Some s \<Rightarrow> s \<noteq> [])"

section \<open>The age, in the words of the specification\<close>

text \<open>
  The calendar-year difference, less one when this year's anniversary of the birth date
  is still to come.
\<close>

definition anniversary_reached :: "date \<Rightarrow> date \<Rightarrow> bool" where
  "anniversary_reached today birthDate =
     (getMonth birthDate < getMonth today \<or>
      (getMonth birthDate = getMonth today \<and> getDate birthDate \<le> getDate today))"

definition calendar_age :: "date \<Rightarrow> date \<Rightarrow> int" where
  "calendar_age today birthDate =
     getFullYear today - getFullYear birthDate -
       (if anniversary_reached today birthDate then 0 else 1)"

text \<open>Two profiles that agree on every property but one.\<close>

definition agree_except :: "string \<Rightarrow> object \<Rightarrow> object \<Rightarrow> bool" where
  "agree_except k u1 u2 = (\<forall>k'. k' \<noteq> k \<longrightarrow> map_of u1 k' = map_of u2 k')"

section \<open>Outcomes of one document and of one requirement\<close>

text \<open>
  The requirement that \<^verbatim>\<open>validateDocuments\<close> finds for a document, and the three
  causes of \<^verbatim>\<open>valid = false\<close>: a mandatory requirement that no submitted document
  matches, a file whose extension the requirement does not allow, and a size over the
  limit of the requirement. A document that matches no requirement is not required.
\<close>

definition requirement_for :: "requirement list \<Rightarrow> document \<Rightarrow> requirement option" where
  "requirement_for reqs d =
     List.find (\<lambda>r. strict_eq (JStr (documentType r)) (doc_type d)) reqs"

definition not_required :: "requirement list \<Rightarrow> document \<Rightarrow> bool" where
  "not_required reqs d = (requirement_for reqs d = None)"

definition file_type_mismatch :: "requirement list \<Rightarrow> document \<Rightarrow> bool" where
  "file_type_mismatch reqs d =
     (case requirement_for reqs d of
        None \<Rightarrow> False
      | Some r \<Rightarrow>
          allowedFileTypes r \<noteq> [] \<and>
          (case fileExtension (doc_file d) of
             Inl e \<Rightarrow> False
           | Inr ext \<Rightarrow> ext \<notin> set (allowedFileTypes r)))"

definition file_size_excess :: "host \<Rightarrow> requirement list \<Rightarrow> document \<Rightarrow> bool" where
  "file_size_excess h reqs d =
     (case requirement_for reqs d of
        None \<Rightarrow> False
      | Some r \<Rightarrow>
          (case maxFileSizeKB r of
             None \<Rightarrow> False
           | Some m \<Rightarrow> m \<noteq> 0 \<and> js_gt h (doc_sizeKB d) (JNum (JFin m))))"

definition mandatory_missing :: "document list \<Rightarrow> requirement \<Rightarrow> bool" where
  "mandatory_missing docs r =
     (isMandatory r \<and>
      \<not> list_ex (\<lambda>doc. strict_eq (doc_type doc) (JStr (documentType r))) docs)"

definition mandatory_entry_of :: "requirement \<Rightarrow> mandatory_entry" where
  "mandatory_entry_of r =
     \<lparr>mandatory_type = documentType r, mandatory_name = requirement_name r L_en\<rparr>"

definition not_required_entry :: "document \<Rightarrow> invalid_entry" where
  "not_required_entry d =
     \<lparr>invalid_type = doc_type d,
      invalid_reason = ''Document type not required for this service''\<rparr>"

text \<open>The submitted documents: the elements of the array that are not \<^verbatim>\<open>null\<close>.\<close>

fun objects :: "element list \<Rightarrow> document list" where
  "objects [] = []"
| "objects (Null # es) = objects es"
| "objects (Document d # es) = d # objects es"

text \<open>
  A submitted document as the route accepts it and the contract states it: it is not
  \<^verbatim>\<open>null\<close>, its \<^verbatim>\<open>file\<close> is a string and its \<^verbatim>\<open>sizeKB\<close> converts to a
  primitive.
\<close>

definition has_file :: "document \<Rightarrow> bool" where
  "has_file d = (case doc_file d of JStr s \<Rightarrow> True | _ \<Rightarrow> False)"

fun well_formed :: "element \<Rightarrow> bool" where
  "well_formed Null = False"
| "well_formed (Document d) = (has_file d \<and> coercible (doc_sizeKB d))"

text \<open>
  The documents on which the second pass raises: the requirement restricts the file
  types and the file is not a string, or the type of the file is accepted, the
  requirement has a size limit and the size does not convert.
\<close>

definition size_raises :: "requirement \<Rightarrow> document \<Rightarrow> bool" where
  "size_raises r d =
     (case maxFileSizeKB r of
        None \<Rightarrow> False
      | Some m \<Rightarrow> m \<noteq> 0 \<and> \<not> coercible (doc_sizeKB d))"

definition document_raises :: "requirement list \<Rightarrow> document \<Rightarrow> bool" where
  "document_raises reqs d =
     (case requirement_for reqs d of
        None \<Rightarrow> False
      | Some r \<Rightarrow>
          (allowedFileTypes r \<noteq> [] \<and> \<not> has_file d) \<or>
          (\<not> file_type_mismatch reqs d \<and> size_raises r d))"

text \<open>
  The arrays on which the validation raises: an element is \<^verbatim>\<open>null\<close>, or the second
  pass raises on a document.
\<close>

definition validation_raises :: "requirement list \<Rightarrow> element list \<Rightarrow> bool" where
  "validation_raises reqs docs =
     (Null \<in> set docs \<or> (\<exists>d\<in>set (objects docs). document_raises reqs d))"

text \<open>
  The entry that a document adds to \<^verbatim>\<open>invalidDocuments\<close>, if any: it is not required,
  or its file type is not allowed, or else its size is over the limit. A required document
  with no such entry adds one to \<^verbatim>\<open>validDocuments\<close>.
\<close>

definition invalid_entry_of :: "host \<Rightarrow> requirement list \<Rightarrow> document \<Rightarrow> invalid_entry option" where
  "invalid_entry_of h reqs d =
     (case requirement_for reqs d of
        None \<Rightarrow> Some (not_required_entry d)
      | Some r \<Rightarrow>
          if file_type_mismatch reqs d then
            Some \<lparr>invalid_type = doc_type d,
                  invalid_reason = ''Invalid file type. Allowed: '' @
                    join '', '' (allowedFileTypes r)\<rparr>
          else
            (case maxFileSizeKB r of
               None \<Rightarrow> None
             | Some m \<Rightarrow>
                 if file_size_excess h reqs d then
                   Some \<lparr>invalid_type = doc_type d,
                         invalid_reason = ''File too large. Maximum size: '' @
                           num_to_str h (JFin m) @ ''KB''\<rparr>
                 else None))"

definition valid_entry_of :: "host \<Rightarrow> requirement list \<Rightarrow> document \<Rightarrow> valid_entry option" where
  "valid_entry_of h reqs d =
     (case requirement_for reqs d of
        None \<Rightarrow> None
      | Some r \<Rightarrow>
          if file_type_mismatch reqs d \<or> file_size_excess h reqs d then None
          else Some \<lparr>valid_type = doc_type d, valid_name = requirement_name r L_en\<rparr>)"


section \<open>Outcomes of one fee\<close>




section \<open>Multilingual resolution\<close>

text \<open>
  C8. For every multilingual field and every requested language, the resolution returns
  the text of the requested language when it is present and non-empty, else the English
  text when that is present and non-empty, else \<^verbatim>\<open>null\<close>. The field
  \<^verbatim>\<open>{en: "Hello"}\<close> read in \<^verbatim>\<open>hi\<close> gives \<^verbatim>\<open>"Hello"\<close>, and the empty field gives
  \<^verbatim>\<open>null\<close>, as does a field that is absent.
\<close>

theorem getFallbackText_resolution:
  "getFallbackText language (Some field) =
     (if present_nonempty (field language) then field language
      else if present_nonempty (field L_en) then field L_en
      else None) \<and>
   getFallbackText L_hi (Some ((\<lambda>l. None)(L_en := Some ''Hello''))) = Some ''Hello'' \<and>
   getFallbackText language (Some (\<lambda>l. None)) = None \<and>
   getFallbackText language None = None"
  by (cases "field language"; cases "field L_en")
     (simp_all add: getFallbackText_def present_nonempty_def)

section \<open>The verdict of checkEligibility\<close>

lemma check_criterion_outcome:
  "check_criterion h today u res c =
     \<lparr>failed = failed res @
        (if criterion_fails h today u c then [failed_entry_of h today u c] else []),
      missing = missing res @
        (if data_missing h today u c then [missing_entry_of h today u c] else [])\<rparr>"
  by (cases "user_value h today u (criteriaType c)")
     (simp_all add: check_criterion_def criterion_fails_def data_missing_def
        missing_entry_of_def failed_entry_of_def)

lemma failed_check_criterion:
  "failed (check_criterion h today u res c) =
     failed res @ (if criterion_fails h today u c then [failed_entry_of h today u c] else [])"
  by (simp add: check_criterion_outcome)

lemma missing_check_criterion:
  "missing (check_criterion h today u res c) =
     missing res @ (if data_missing h today u c then [missing_entry_of h today u c] else [])"
  by (simp add: check_criterion_outcome)

text \<open>
  The loop keeps the order of the criteria: the two lists are the failing and the
  missing criteria, each in the order of the service.
\<close>

lemma foldl_check_criterion:
  "foldl (check_criterion h today u) res cs =
     \<lparr>failed = failed res @
        map (failed_entry_of h today u) (filter (criterion_fails h today u) cs),
      missing = missing res @
        map (missing_entry_of h today u) (filter (data_missing h today u) cs)\<rparr>"
proof (induction cs arbitrary: res)
  case Nil
  show ?case by simp
next
  case (Cons c cs)
  have "foldl (check_criterion h today u) res (c # cs) =
          foldl (check_criterion h today u) (check_criterion h today u res c) cs"
    by simp
  also have "\<dots> =
     \<lparr>failed = failed (check_criterion h today u res c) @
        map (failed_entry_of h today u) (filter (criterion_fails h today u) cs),
      missing = missing (check_criterion h today u res c) @
        map (missing_entry_of h today u) (filter (data_missing h today u) cs)\<rparr>"
    by (rule Cons.IH)
  also have "\<dots> =
     \<lparr>failed = failed res @
        map (failed_entry_of h today u) (filter (criterion_fails h today u) (c # cs)),
      missing = missing res @
        map (missing_entry_of h today u) (filter (data_missing h today u) (c # cs))\<rparr>"
    by (simp add: failed_check_criterion missing_check_criterion)
  finally show ?case .
qed

lemma filter_empty_iff: "(filter P xs = []) = (\<not> (\<exists>x\<in>set xs. P x))"
  by (simp add: filter_empty_conv)

text \<open>
  The verdict and its message, read off the two lists: failing criteria first, missing
  data second.
\<close>

lemma verdict_of_lists:
  assumes "criteria \<noteq> []"
  shows "eligible (checkEligibility h today criteria u) =
           (if (\<exists>c\<in>set criteria. criterion_fails h today u c) then NotEligible
            else if (\<exists>c\<in>set criteria. data_missing h today u c) then Unknown
            else Eligible) \<and>
         message (checkEligibility h today criteria u) =
           (if (\<exists>c\<in>set criteria. criterion_fails h today u c)
              then ''User does not meet eligibility criteria''
            else if (\<exists>c\<in>set criteria. data_missing h today u c)
              then ''Missing required information to determine eligibility''
            else ''User meets all eligibility criteria'')"
  using assms
  by (simp add: checkEligibility_def foldl_check_criterion filter_empty_iff Let_def)


lemma failedCriteria_checkEligibility:
  "cs \<noteq> [] \<Longrightarrow>
   failedCriteria (checkEligibility h today cs u) =
     Some (map (failed_entry_of h today u) (filter (criterion_fails h today u) cs))"
  by (simp add: checkEligibility_def foldl_check_criterion Let_def)



section \<open>Comparisons with numbers, null and undefined\<close>

lemma num_cmp:
  "js_ge h (JNum (JFin a)) (JNum (JFin b)) = (b \<le> a)"
  "js_le h (JNum (JFin a)) (JNum (JFin b)) = (a \<le> b)"
  "js_lt h (JNum (JFin a)) (JNum (JFin b)) = (a < b)"
  "js_gt h (JNum (JFin a)) (JNum (JFin b)) = (b < a)"
  by (auto simp add: js_ge_def js_le_def js_lt_def js_gt_def is_less_than_def)

lemma num_lt_NaN: "num_lt x JNaN = None"
  by (cases x) simp_all

lemma is_less_than_undefined_right: "is_less_than h v JUndefined = None"
  by (cases "to_primitive h v") (simp_all add: is_less_than_def num_lt_NaN)

lemma is_less_than_undefined_left: "is_less_than h JUndefined v = None"
  by (simp add: is_less_than_def)

lemma undefined_cmp:
  "js_ge h v JUndefined = False"
  "js_le h v JUndefined = False"
  "js_ge h JUndefined v = False"
  "js_le h JUndefined v = False"
  by (simp_all add: js_ge_def js_le_def is_less_than_undefined_right
      is_less_than_undefined_left)




lemma strict_eq_null: "strict_eq v JNull = (v = JNull)"
  by (cases v) simp_all

section \<open>The age of an age criterion\<close>

lemma age_of_calendar_age:
  "age_of today (Some birthDate) = JFin (of_int (calendar_age today birthDate))"
  by (auto simp add: calendar_age_def anniversary_reached_def)

lemma checkEligibility_single:
  "checkEligibility h today [c] u =
     (if criterion_fails h today u c then
        \<lparr>eligible = NotEligible, message = ''User does not meet eligibility criteria'',
         failedCriteria = Some [failed_entry_of h today u c],
         missingData =
           Some (if data_missing h today u c then [missing_entry_of h today u c] else [])\<rparr>
      else if data_missing h today u c then
        \<lparr>eligible = Unknown,
         message = ''Missing required information to determine eligibility'',
         failedCriteria = Some [], missingData = Some [missing_entry_of h today u c]\<rparr>
      else
        \<lparr>eligible = Eligible, message = ''User meets all eligibility criteria'',
         failedCriteria = Some [], missingData = Some []\<rparr>)"
  by (simp add: checkEligibility_def check_criterion_outcome)

text \<open>
  C5. For every profile with a \<^verbatim>\<open>dateOfBirth\<close> (a truthy value that the engine reads
  as a date) and every evaluation date, the user value of an age criterion is the
  calendar-year difference between the two dates, less one exactly when the month and day
  of the evaluation precede those of the birth, and it is this age that
  \<^verbatim>\<open>checkEligibility\<close> evaluates the criterion on and reports: the loop leaves the
  results as they are when the validation method accepts the age, and adds a failed
  criterion with this age as \<^verbatim>\<open>userValue\<close> when it does not; for a service with this
  criterion alone the answer is \<^verbatim>\<open>eligible = true\<close> in the first case and
  \<^verbatim>\<open>eligible = false\<close> with this entry in the second; in any list that holds the
  criterion, an age that the method rejects makes \<^verbatim>\<open>eligible\<close> false and is reported
  among the failed criteria. Born on 2000-06-15, the user is 23 on 2024-06-14 and 24 on
  2024-06-15 and on 2024-06-16 (months are counted from 0).
\<close>

theorem age_from_dateOfBirth:
  assumes "truthy (get_prop u ''dateOfBirth'')"
    and "parse_date h (get_prop u ''dateOfBirth'') = Some birthDate"
  shows "user_value h today u CT_age =
           Some (JNum (JFin (of_int (calendar_age today birthDate)))) \<and>
         (criteriaType c = CT_age \<longrightarrow>
            \<not> data_missing h today u c \<and>
            criterion_fails h today u c =
              (\<not> criteriaResult h c (JNum (JFin (of_int (calendar_age today birthDate))))
                   (validationMethod c))) \<and>
         age_of \<lparr>getFullYear = 2024, getMonth = 5, getDate = 14\<rparr>
           (Some \<lparr>getFullYear = 2000, getMonth = 5, getDate = 15\<rparr>) = JFin 23 \<and>
         age_of \<lparr>getFullYear = 2024, getMonth = 5, getDate = 15\<rparr>
           (Some \<lparr>getFullYear = 2000, getMonth = 5, getDate = 15\<rparr>) = JFin 24 \<and>
         age_of \<lparr>getFullYear = 2024, getMonth = 5, getDate = 16\<rparr>
           (Some \<lparr>getFullYear = 2000, getMonth = 5, getDate = 15\<rparr>) = JFin 24 \<and>
         (criteriaType c = CT_age \<longrightarrow>
            check_criterion h today u res c =
              (if criteriaResult h c (JNum (JFin (of_int (calendar_age today birthDate))))
                    (validationMethod c)
               then res
               else res\<lparr>failed := failed res @
                 [\<lparr>failed_type = CT_age, failed_name = criteriaName c,
                   failed_userValue = JNum (JFin (of_int (calendar_age today birthDate))),
                   failed_required = required_text h c\<rparr>]\<rparr>) \<and>
            checkEligibility h today [c] u =
              (if criteriaResult h c (JNum (JFin (of_int (calendar_age today birthDate))))
                    (validationMethod c)
               then \<lparr>eligible = Eligible, message = ''User meets all eligibility criteria'',
                     failedCriteria = Some [], missingData = Some []\<rparr>
               else \<lparr>eligible = NotEligible,
                     message = ''User does not meet eligibility criteria'',
                     failedCriteria =
                       Some [\<lparr>failed_type = CT_age, failed_name = criteriaName c,
                              failed_userValue =
                                JNum (JFin (of_int (calendar_age today birthDate))),
                              failed_required = required_text h c\<rparr>],
                     missingData = Some []\<rparr>) \<and>
            (c \<in> set cs \<and>
             \<not> criteriaResult h c (JNum (JFin (of_int (calendar_age today birthDate))))
                 (validationMethod c) \<longrightarrow>
               eligible (checkEligibility h today cs u) = NotEligible \<and>
               (\<exists>fs. failedCriteria (checkEligibility h today cs u) = Some fs \<and>
                  \<lparr>failed_type = CT_age, failed_name = criteriaName c,
                   failed_userValue = JNum (JFin (of_int (calendar_age today birthDate))),
                   failed_required = required_text h c\<rparr> \<in> set fs)))"
proof -
  let ?age = "JNum (JFin (of_int (calendar_age today birthDate)))"
  let ?entry = "\<lparr>failed_type = CT_age, failed_name = criteriaName c,
                   failed_userValue = ?age, failed_required = required_text h c\<rparr>"
  have uv: "user_value h today u CT_age = Some ?age"
    using assms by (simp add: age_of_calendar_age del: age_of.simps)
  have ex: "age_of \<lparr>getFullYear = 2024, getMonth = 5, getDate = 14\<rparr>
           (Some \<lparr>getFullYear = 2000, getMonth = 5, getDate = 15\<rparr>) = JFin 23"
    "age_of \<lparr>getFullYear = 2024, getMonth = 5, getDate = 15\<rparr>
           (Some \<lparr>getFullYear = 2000, getMonth = 5, getDate = 15\<rparr>) = JFin 24"
    "age_of \<lparr>getFullYear = 2024, getMonth = 5, getDate = 16\<rparr>
           (Some \<lparr>getFullYear = 2000, getMonth = 5, getDate = 15\<rparr>) = JFin 24"
    by simp_all
  have dm: "\<not> data_missing h today u c" if "criteriaType c = CT_age"
    using that uv by (simp add: data_missing_def)
  have cf: "criterion_fails h today u c = (\<not> criteriaResult h c ?age (validationMethod c))"
    if "criteriaType c = CT_age"
    using that uv by (simp add: criterion_fails_def)
  have fe: "failed_entry_of h today u c = ?entry" if "criteriaType c = CT_age"
    using that uv by (simp add: failed_entry_of_def)
  have cc: "check_criterion h today u res c =
      (if criteriaResult h c ?age (validationMethod c) then res
       else res\<lparr>failed := failed res @ [?entry]\<rparr>)"
    if "criteriaType c = CT_age"
    using that uv by (simp add: check_criterion_def)
  have ce: "checkEligibility h today [c] u =
      (if criteriaResult h c ?age (validationMethod c)
       then \<lparr>eligible = Eligible, message = ''User meets all eligibility criteria'',
             failedCriteria = Some [], missingData = Some []\<rparr>
       else \<lparr>eligible = NotEligible, message = ''User does not meet eligibility criteria'',
             failedCriteria = Some [?entry], missingData = Some []\<rparr>)"
    if "criteriaType c = CT_age"
    using dm [OF that] cf [OF that] fe [OF that] by (simp add: checkEligibility_single)
  have ls: "eligible (checkEligibility h today cs u) = NotEligible \<and>
      (\<exists>fs. failedCriteria (checkEligibility h today cs u) = Some fs \<and> ?entry \<in> set fs)"
    if t: "criteriaType c = CT_age" and m: "c \<in> set cs"
      and r: "\<not> criteriaResult h c ?age (validationMethod c)"
  proof -
    from m have ne: "cs \<noteq> []" by auto
    from cf [OF t] r have f: "criterion_fails h today u c" by simp
    with m have "\<exists>c\<in>set cs. criterion_fails h today u c" by blast
    with verdict_of_lists [OF ne, of h today u]
    have "eligible (checkEligibility h today cs u) = NotEligible" by simp
    moreover from f m fe [OF t]
    have "?entry \<in> set (map (failed_entry_of h today u)
        (filter (criterion_fails h today u) cs))"
      by force
    ultimately show ?thesis
      by (simp add: failedCriteria_checkEligibility [OF ne])
  qed
  from uv ex dm cf cc ce ls show ?thesis by blast
qed

text \<open>
  The three dates of the example, read by the example host, and a minimum age of 24: on
  2024-06-14 the user is reported as 23 and is not eligible, on 2024-06-15 the user is
  eligible.
\<close>

theorem age_from_dateOfBirth_witness:
  "user_value example_host \<lparr>getFullYear = 2024, getMonth = 5, getDate = 14\<rparr>
     [(''dateOfBirth'', JStr ''2000-06-15'')] CT_age = Some (JNum (JFin 23)) \<and>
   user_value example_host \<lparr>getFullYear = 2024, getMonth = 5, getDate = 15\<rparr>
     [(''dateOfBirth'', JStr ''2000-06-15'')] CT_age = Some (JNum (JFin 24)) \<and>
   user_value example_host \<lparr>getFullYear = 2024, getMonth = 5, getDate = 16\<rparr>
     [(''dateOfBirth'', JStr ''2000-06-15'')] CT_age = Some (JNum (JFin 24)) \<and>
   checkEligibility example_host \<lparr>getFullYear = 2024, getMonth = 5, getDate = 14\<rparr>
     [\<lparr>criteriaType = CT_age, criteria_name = (\<lambda>l. None)(L_en := Some ''Age''),
       minValue = JNum (JFin 24), maxValue = JUndefined, allowedValues = [],
       validationMethod = VM_minimum\<rparr>]
     [(''dateOfBirth'', JStr ''2000-06-15'')] =
   \<lparr>eligible = NotEligible, message = ''User does not meet eligibility criteria'',
    failedCriteria =
      Some [\<lparr>failed_type = CT_age, failed_name = ''Age'',
             failed_userValue = JNum (JFin 23), failed_required = ''minimum: 24''\<rparr>],
    missingData = Some []\<rparr> \<and>
   checkEligibility example_host \<lparr>getFullYear = 2024, getMonth = 5, getDate = 15\<rparr>
     [\<lparr>criteriaType = CT_age, criteria_name = (\<lambda>l. None)(L_en := Some ''Age''),
       minValue = JNum (JFin 24), maxValue = JUndefined, allowedValues = [],
       validationMethod = VM_minimum\<rparr>]
     [(''dateOfBirth'', JStr ''2000-06-15'')] =
   \<lparr>eligible = Eligible, message = ''User meets all eligibility criteria'',
    failedCriteria = Some [], missingData = Some []\<rparr>"
proof -
  let ?u = "[(''dateOfBirth'', JStr ''2000-06-15'')]"
  let ?b = "\<lparr>getFullYear = 2000, getMonth = 5, getDate = 15\<rparr>"
  let ?c = "\<lparr>criteriaType = CT_age, criteria_name = (\<lambda>l. None)(L_en := Some ''Age''),
       minValue = JNum (JFin 24), maxValue = JUndefined, allowedValues = [],
       validationMethod = VM_minimum\<rparr>"
  have t: "truthy (get_prop ?u ''dateOfBirth'')"
    by (simp add: get_prop_def)
  have p: "parse_date example_host (get_prop ?u ''dateOfBirth'') = Some ?b"
    by code_simp
  have c: "calendar_age \<lparr>getFullYear = 2024, getMonth = 5, getDate = 14\<rparr> ?b = 23"
    "calendar_age \<lparr>getFullYear = 2024, getMonth = 5, getDate = 15\<rparr> ?b = 24"
    "calendar_age \<lparr>getFullYear = 2024, getMonth = 5, getDate = 16\<rparr> ?b = 24"
    by (simp_all add: calendar_age_def anniversary_reached_def)
  have a: "criteriaType ?c = CT_age" by simp
  have n: "criteriaName ?c = ''Age''"
    by (simp add: criteriaName_def)
  have q: "required_text example_host ?c = ''minimum: 24''"
    by code_simp
  have r: "\<not> criteriaResult example_host ?c (JNum (JFin 23)) (validationMethod ?c)"
    "criteriaResult example_host ?c (JNum (JFin 24)) (validationMethod ?c)"
    by (simp_all add: num_cmp)
  from age_from_dateOfBirth [OF t p, where c = ?c] a
  have uv: "\<And>today. user_value example_host today ?u CT_age =
      Some (JNum (JFin (of_int (calendar_age today ?b))))"
    and ce: "\<And>today. checkEligibility example_host today [?c] ?u =
      (if criteriaResult example_host ?c (JNum (JFin (of_int (calendar_age today ?b))))
            (validationMethod ?c)
       then \<lparr>eligible = Eligible, message = ''User meets all eligibility criteria'',
             failedCriteria = Some [], missingData = Some []\<rparr>
       else \<lparr>eligible = NotEligible, message = ''User does not meet eligibility criteria'',
             failedCriteria =
               Some [\<lparr>failed_type = CT_age, failed_name = criteriaName ?c,
                      failed_userValue = JNum (JFin (of_int (calendar_age today ?b))),
                      failed_required = required_text example_host ?c\<rparr>],
             missingData = Some []\<rparr>)"
    by blast+
  have one: "checkEligibility example_host
      \<lparr>getFullYear = 2024, getMonth = 5, getDate = 14\<rparr> [?c] ?u =
    \<lparr>eligible = NotEligible, message = ''User does not meet eligibility criteria'',
     failedCriteria =
       Some [\<lparr>failed_type = CT_age, failed_name = ''Age'',
              failed_userValue = JNum (JFin 23), failed_required = ''minimum: 24''\<rparr>],
     missingData = Some []\<rparr>"
    unfolding ce c(1) n q using r(1) by simp
  have two: "checkEligibility example_host
      \<lparr>getFullYear = 2024, getMonth = 5, getDate = 15\<rparr> [?c] ?u =
    \<lparr>eligible = Eligible, message = ''User meets all eligibility criteria'',
     failedCriteria = Some [], missingData = Some []\<rparr>"
    unfolding ce c(2) using r(2) by simp
  from uv c one two show ?thesis by simp
qed

section \<open>Fees do not read the date of birth\<close>

lemma category_matches_agree:
  assumes "agree_except ''dateOfBirth'' u1 u2"
  shows "category_matches h u1 = category_matches h u2"
proof -
  have "get_prop u1 k = get_prop u2 k" if "k \<noteq> ''dateOfBirth''" for k
    using assms that by (simp add: agree_except_def get_prop_def)
  then have "category_matches h u1 c = category_matches h u2 c" for c
    by (simp add: category_matches_def)
  then show ?thesis by (rule ext)
qed

lemma apply_factor_agree:
  assumes "agree_except ''dateOfBirth'' u1 u2"
  shows "apply_factor h u1 = apply_factor h u2"
proof -
  have "get_prop u1 k = get_prop u2 k" if "k \<noteq> ''dateOfBirth''" for k
    using assms that by (simp add: agree_except_def get_prop_def)
  then have "apply_factor h u1 a f = apply_factor h u2 a f" for a f
    by (simp add: apply_factor_def)
  then show ?thesis by (intro ext)
qed

lemma category_raises_agree:
  assumes "agree_except ''dateOfBirth'' u1 u2"
  shows "category_raises u1 = category_raises u2"
proof -
  have "get_prop u1 ''age'' = get_prop u2 ''age''"
    using assms by (simp add: agree_except_def get_prop_def)
  then have "category_raises u1 c = category_raises u2 c" for c
    by (simp add: category_raises_def)
  then show ?thesis by (rule ext)
qed

lemma factor_raises_agree:
  assumes "agree_except ''dateOfBirth'' u1 u2"
  shows "factor_raises u1 = factor_raises u2"
proof -
  have "get_prop u1 k = get_prop u2 k" if "k \<noteq> ''dateOfBirth''" for k
    using assms that by (simp add: agree_except_def get_prop_def)
  then have "factor_raises u1 f = factor_raises u2 f" for f
    by (simp add: factor_raises_def)
  then show ?thesis by (rule ext)
qed

lemma some_category_agree:
  assumes "agree_except ''dateOfBirth'' u1 u2"
  shows "some_category h u1 cs = some_category h u2 cs"
proof (induction cs)
  case Nil
  show ?case by simp
next
  case (Cons c cs)
  have "category_raises u1 c = category_raises u2 c"
    by (simp add: category_raises_agree [OF assms])
  moreover have "category_matches h u1 c = category_matches h u2 c"
    by (simp add: category_matches_agree [OF assms])
  ultimately show ?case
    using Cons.IH by simp
qed

lemma apply_factors_agree:
  assumes "agree_except ''dateOfBirth'' u1 u2"
  shows "apply_factors h u1 a fs = apply_factors h u2 a fs"
proof (induction fs arbitrary: a)
  case Nil
  show ?case by simp
next
  case (Cons f fs)
  have "factor_raises u1 f = factor_raises u2 f"
    by (simp add: factor_raises_agree [OF assms])
  moreover have "apply_factor h u1 a f = apply_factor h u2 a f"
    by (simp add: apply_factor_agree [OF assms])
  ultimately show ?case
    using Cons.IH by simp
qed

lemma process_fee_agree:
  assumes "agree_except ''dateOfBirth'' u1 u2"
  shows "process_fee h u1 res f = process_fee h u2 res f"
  unfolding process_fee_def check_waiver_def
    some_category_agree [OF assms, of h] apply_factors_agree [OF assms, of h]
  by (rule refl)

lemma process_fees_agree:
  assumes "agree_except ''dateOfBirth'' u1 u2"
  shows "process_fees h u1 res fs = process_fees h u2 res fs"
proof (induction fs arbitrary: res)
  case Nil
  show ?case by simp
next
  case (Cons f fs)
  show ?case
    by (cases "process_fee h u2 res f")
       (simp_all add: process_fee_agree [OF assms, of h res f] Cons.IH)
qed

text \<open>
  C9. For every list of fees and every two profiles that agree on all properties except
  \<^verbatim>\<open>dateOfBirth\<close>, \<^verbatim>\<open>calculateFees\<close> returns the same result: the senior waiver and the
  \<^verbatim>\<open>age\<close> factor read \<^verbatim>\<open>userData.age\<close> and nothing is derived from the date of birth.
\<close>

theorem calculateFees_ignores_dateOfBirth:
  assumes "\<forall>k. k \<noteq> ''dateOfBirth'' \<longrightarrow> map_of u1 k = map_of u2 k"
  shows "calculateFees h fees u1 = calculateFees h fees u2"
proof (cases fees)
  case Nil
  then show ?thesis by (simp add: calculateFees_def)
next
  case (Cons f fs)
  from assms have "agree_except ''dateOfBirth'' u1 u2"
    by (simp add: agree_except_def)
  then have E:
    "process_fees h u1 \<lparr>acc_total = 0, acc_breakdown = [], acc_waivers = []\<rparr> (f # fs) =
     process_fees h u2 \<lparr>acc_total = 0, acc_breakdown = [], acc_waivers = []\<rparr> (f # fs)"
    by (rule process_fees_agree)
  show ?thesis
    unfolding Cons calculateFees_def list.case E by (rule refl)
qed

text \<open>
  A fee of 1000 with an \<^verbatim>\<open>age\<close> factor, for a profile that states the age 65: the senior
  discount applies whether the date of birth says 1950 or 2000.
\<close>

theorem calculateFees_ignores_dateOfBirth_witness:
  "totalAmount (projr (calculateFees example_host
      [\<lparr>feeType = ''application'', fee_name = (\<lambda>l. None)(L_en := Some ''Application fee''),
        fee_description = None, amount = 1000, currency = Some ''INR'',
        variableFactors = [\<lparr>factor = Some ''age'', calculation = None\<rparr>],
        fee_waiver = None\<rparr>]
      [(''dateOfBirth'', JStr ''2000-06-15''), (''age'', JNum (JFin 65))])) = 750"
proof -
  let ?fees = "[\<lparr>feeType = ''application'',
        fee_name = (\<lambda>l. None)(L_en := Some ''Application fee''),
        fee_description = None, amount = 1000, currency = Some ''INR'',
        variableFactors = [\<lparr>factor = Some ''age'', calculation = None\<rparr>],
        fee_waiver = None\<rparr>]"
  let ?u1 = "[(''dateOfBirth'', JStr ''1950-01-01''), (''age'', JNum (JFin 65))]"
  let ?u2 = "[(''dateOfBirth'', JStr ''2000-06-15''), (''age'', JNum (JFin 65))]"
  have a: "\<forall>k. k \<noteq> ''dateOfBirth'' \<longrightarrow> map_of ?u1 k = map_of ?u2 k"
    by simp
  have v: "totalAmount (projr (calculateFees example_host ?fees ?u1)) = 750"
    by code_simp
  from calculateFees_ignores_dateOfBirth [OF a, of example_host ?fees] v
  show ?thesis by simp
qed

section \<open>The range method\<close>

text \<open>
  A bound that is \<^verbatim>\<open>null\<close> imposes no constraint, and between 18 and 60 the values 17
  and 61 fail while 18 and 60 pass.
\<close>

lemma range_result:
  "criteriaResult h c v VM_range =
     ((minValue c = JNull \<or> js_ge h v (minValue c)) \<and>
      (maxValue c = JNull \<or> js_le h v (maxValue c)))"
  by (simp add: strict_eq_null)

lemma range_18_60:
  assumes "minValue c = JNum (JFin 18)" and "maxValue c = JNum (JFin 60)"
  shows "\<not> criteriaResult h c (JNum (JFin 17)) VM_range"
    and "criteriaResult h c (JNum (JFin 18)) VM_range"
    and "criteriaResult h c (JNum (JFin 60)) VM_range"
    and "\<not> criteriaResult h c (JNum (JFin 61)) VM_range"
  using assms by (simp_all add: num_cmp)

text \<open>
  C4. The claim: a range criterion passes exactly when the user value lies within the
  bounds that are set, and a bound that is absent imposes no constraint. The code tests a
  bound with \<^verbatim>\<open>=== null\<close>, and a \<^verbatim>\<open>Mixed\<close> bound that was never set reads as
  \<^verbatim>\<open>undefined\<close>: a range with \<^verbatim>\<open>minValue\<close> 100000 and no \<^verbatim>\<open>maxValue\<close> rejects the
  income 200000, and the user is not eligible. With \<^verbatim>\<open>maxValue: null\<close> the same income
  passes.
\<close>

theorem range_with_absent_bound_fails:
  "criteriaResult h
     \<lparr>criteriaType = CT_income, criteria_name = (\<lambda>l. None)(L_en := Some ''Income''),
      minValue = JNum (JFin 100000), maxValue = JUndefined, allowedValues = [],
      validationMethod = VM_range\<rparr> (JNum (JFin 200000)) VM_range = False \<and>
   eligible (checkEligibility h today
     [\<lparr>criteriaType = CT_income, criteria_name = (\<lambda>l. None)(L_en := Some ''Income''),
       minValue = JNum (JFin 100000), maxValue = JUndefined, allowedValues = [],
       validationMethod = VM_range\<rparr>]
     [(''income'', JNum (JFin 200000))]) = NotEligible \<and>
   criteriaResult h
     \<lparr>criteriaType = CT_income, criteria_name = (\<lambda>l. None)(L_en := Some ''Income''),
      minValue = JNum (JFin 100000), maxValue = JNull, allowedValues = [],
      validationMethod = VM_range\<rparr> (JNum (JFin 200000)) VM_range = True"
  by (simp add: checkEligibility_def check_criterion_def get_prop_def num_cmp undefined_cmp)

section \<open>The income factor\<close>

text \<open>
  The income factor on a truthy income: half below 300000, one and a half above 1000000,
  unchanged between. An income that is not truthy leaves the amount unchanged.
\<close>

lemma apply_factor_income:
  assumes "factor f = Some ''income''" and "truthy (get_prop u ''income'')"
  shows "apply_factor h u a f =
           (if js_lt h (get_prop u ''income'') (JNum (JFin 300000)) then a * (1 / 2)
            else if js_gt h (get_prop u ''income'') (JNum (JFin 1000000)) then a * (3 / 2)
            else a)"
  using assms by (simp add: apply_factor_def Let_def)

lemma apply_factor_income_falsy:
  assumes "factor f = Some ''income''" and "\<not> truthy (get_prop u ''income'')"
  shows "apply_factor h u a f = a"
  using assms by (simp add: apply_factor_def Let_def)

lemma apply_factor_income_examples:
  assumes "factor f = Some ''income''"
  shows "apply_factor h [(''income'', JNum (JFin 250000))] 1000 f = 500"
    and "apply_factor h [(''income'', JNum (JFin 1500000))] 1000 f = 1500"
    and "apply_factor h [(''income'', JNum (JFin 500000))] 1000 f = 1000"
  using assms by (simp_all add: apply_factor_def Let_def get_prop_def num_cmp)

text \<open>
  C3. The claim: whenever \<^verbatim>\<open>userData.income\<close> is present, an income below 300000 halves
  the fee. The code guards the factor with the truthiness of \<^verbatim>\<open>userData.income\<close>, so the
  income 0, which is present and below 300000, gets no discount: the fee of 1000 stays 1000,
  where the income 1 gives 500.
\<close>

theorem income_zero_is_not_discounted:
  "apply_factor h [(''income'', JNum (JFin 0))] 1000
     \<lparr>factor = Some ''income'', calculation = None\<rparr> = 1000 \<and>
   calculateFees h
     [\<lparr>feeType = ''application'', fee_name = (\<lambda>l. None)(L_en := Some ''Application fee''),
       fee_description = None, amount = 1000, currency = Some ''INR'',
       variableFactors = [\<lparr>factor = Some ''income'', calculation = None\<rparr>],
       fee_waiver = None\<rparr>]
     [(''income'', JNum (JFin 0))] =
   Inr \<lparr>totalAmount = 1000, result_currency = ''INR'',
        breakdown = [\<lparr>item_feeType = ''application'', item_name = Some ''Application fee'',
                      item_amount = 1000, item_description = None\<rparr>],
        waivers = Some [], fee_message = None, fee_error = None\<rparr> \<and>
   apply_factor h [(''income'', JNum (JFin 1))] 1000
     \<lparr>factor = Some ''income'', calculation = None\<rparr> = 500"
  by (simp add: apply_factor_def calculateFees_def process_fee_def check_waiver_def
      factor_raises_def try_catch_def get_prop_def num_cmp)

section \<open>Waivers\<close>

text \<open>
  A waived fee whose waiver has a description: the loop adds the entry to
  \<^verbatim>\<open>waivers\<close>, with the amount of the rule, and leaves the total and the breakdown as
  they were; no factor is applied.
\<close>

lemma waived_fee_is_excluded:
  assumes "fee_waiver fee = Some w" and "eligibility w \<noteq> []"
    and "some_category h u (eligibility w) = Inr True"
    and "waiver_description w = Some d"
  shows "process_fee h u result fee =
           Inr (result\<lparr>acc_waivers := acc_waivers result @
             [\<lparr>waived_feeType = feeType fee, waived_name = fee_name fee L_en,
               waived_amount = amount fee,
               waived_reason = str_or (d L_en) ''Eligible for fee waiver'' id\<rparr>]\<rparr>)"
  using assms by (simp add: process_fee_def check_waiver_def)

text \<open>
  C2. The claim: a rule whose waiver matches the user is left out of the total and of the
  breakdown and is recorded in \<^verbatim>\<open>waivers\<close> with its amount and the reason. The reason is
  read as \<^verbatim>\<open>fee.waiver.description.en || 'Eligible for fee waiver'\<close>; for a waiver
  without a description the read raises, the \<^verbatim>\<open>catch\<close> block answers, and nothing is
  recorded: the senior of 65 gets the error result, without \<^verbatim>\<open>waivers\<close>.
\<close>

theorem waiver_without_description_aborts:
  "calculateFees h
     [\<lparr>feeType = ''application'', fee_name = (\<lambda>l. None)(L_en := Some ''Application fee''),
       fee_description = None, amount = 1000, currency = Some ''INR'',
       variableFactors = [\<lparr>factor = Some ''income'', calculation = None\<rparr>],
       fee_waiver = Some \<lparr>eligibility = [''senior''], waiver_description = None\<rparr>\<rparr>]
     [(''age'', JNum (JFin 65)), (''income'', JNum (JFin 1500000))] =
   Inr \<lparr>totalAmount = 0, result_currency = ''INR'', breakdown = [], waivers = None,
        fee_message = None, fee_error = Some ''Error calculating fees''\<rparr>"
  by (simp add: calculateFees_def process_fee_def check_waiver_def category_matches_def
      category_raises_def try_catch_def get_prop_def num_cmp)

section \<open>Null is a value\<close>




section \<open>The two passes of validateDocuments\<close>


lemma validation_raises_simps:
  "validation_raises reqs [] = False"
  "validation_raises reqs (Null # es) = True"
  "validation_raises reqs (Document d # es) =
     (document_raises reqs d \<or> validation_raises reqs es)"
  by (auto simp add: validation_raises_def)

lemma validation_raises_Null: "Null \<in> set docs \<Longrightarrow> validation_raises reqs docs"
  by (simp add: validation_raises_def)

text \<open>The first pass on an array without \<^verbatim>\<open>null\<close>.\<close>

lemma some_document_objects:
  "Null \<notin> set docs \<Longrightarrow>
   some_document docs t =
     Inr (list_ex (\<lambda>doc. strict_eq (doc_type doc) (JStr t)) (objects docs))"
  by (induction docs t rule: some_document.induct) simp_all

lemma check_mandatory_objects:
  assumes "Null \<notin> set docs"
  shows "check_mandatory docs st r =
     Inr (st\<lparr>missingMandatory := missingMandatory st @
              (if mandatory_missing (objects docs) r then [mandatory_entry_of r] else []),
            valid := (valid st \<and> \<not> mandatory_missing (objects docs) r)\<rparr>)"
  by (simp add: check_mandatory_def some_document_objects [OF assms] mandatory_missing_def
      mandatory_entry_of_def)

lemma check_mandatories_objects:
  assumes "Null \<notin> set docs"
  shows "check_mandatories docs st reqs =
     Inr (st\<lparr>missingMandatory := missingMandatory st @
              map mandatory_entry_of (filter (mandatory_missing (objects docs)) reqs),
            valid :=
              (valid st \<and> \<not> (\<exists>r\<in>set reqs. mandatory_missing (objects docs) r))\<rparr>)"
proof (induction reqs arbitrary: st)
  case Nil
  show ?case by simp
next
  case (Cons r reqs)
  show ?case
    by (simp add: check_mandatory_objects [OF assms] Cons.IH)
qed

lemma js_includes_string: "js_includes h xs (JStr s) = (s \<in> set xs)"
  by (auto simp add: js_includes_def list_ex_iff)

text \<open>One document of the second pass: it raises, or it adds its entry.\<close>

lemma check_object_raises:
  assumes "document_raises reqs d"
  shows "check_object h reqs st d = Inl TypeError"
proof (cases "requirement_for reqs d")
  case None
  with assms show ?thesis by (simp add: document_raises_def)
next
  case (Some r)
  then have f: "List.find (\<lambda>r. strict_eq (JStr (documentType r)) (doc_type d)) reqs = Some r"
    by (simp add: requirement_for_def)
  from assms Some show ?thesis
    by (cases "doc_file d"; cases "maxFileSizeKB r")
       (auto simp add: document_raises_def check_object_def f has_file_def
          file_type_mismatch_def size_raises_def check_size_def js_includes_string
          split: if_splits)
qed

lemma check_object_returns:
  assumes "\<not> document_raises reqs d"
  shows "\<exists>st'. check_object h reqs st d = Inr st' \<and>
           valid st' =
             (valid st \<and> \<not> file_type_mismatch reqs d \<and> \<not> file_size_excess h reqs d) \<and>
           missingMandatory st' = missingMandatory st \<and>
           invalidDocuments st' =
             invalidDocuments st @
               (case invalid_entry_of h reqs d of None \<Rightarrow> [] | Some e \<Rightarrow> [e]) \<and>
           validDocuments st' =
             validDocuments st @
               (case valid_entry_of h reqs d of None \<Rightarrow> [] | Some e \<Rightarrow> [e])"
proof (cases "requirement_for reqs d")
  case None
  then show ?thesis
    by (simp add: check_object_def requirement_for_def file_type_mismatch_def
        file_size_excess_def invalid_entry_of_def valid_entry_of_def not_required_entry_def)
next
  case (Some r)
  then have f: "List.find (\<lambda>r. strict_eq (JStr (documentType r)) (doc_type d)) reqs = Some r"
    by (simp add: requirement_for_def)
  from assms Some show ?thesis
    by (cases "doc_file d"; cases "maxFileSizeKB r")
       (auto simp add: document_raises_def check_object_def f has_file_def
          file_type_mismatch_def file_size_excess_def size_raises_def check_size_def
          add_valid_def invalid_entry_of_def valid_entry_of_def js_includes_string
          split: if_splits)
qed

text \<open>The second pass: it raises, or it adds the entries of the documents in order.\<close>

lemma check_documents_raises:
  assumes "validation_raises reqs docs"
  shows "check_documents h reqs st docs = Inl TypeError"
  using assms
proof (induction docs arbitrary: st)
  case Nil
  then show ?case by (simp add: validation_raises_simps)
next
  case (Cons e docs)
  show ?case
  proof (cases e)
    case Null
    then show ?thesis by simp
  next
    case (Document d)
    show ?thesis
    proof (cases "document_raises reqs d")
      case True
      then show ?thesis by (simp add: Document check_object_raises)
    next
      case False
      with Cons.prems Document have "validation_raises reqs docs"
        by (simp add: validation_raises_simps)
      moreover from check_object_returns [OF False, of h st]
      obtain st1 where "check_object h reqs st d = Inr st1" by blast
      ultimately show ?thesis by (simp add: Document Cons.IH)
    qed
  qed
qed

lemma check_documents_returns:
  assumes "\<not> validation_raises reqs docs"
  shows "\<exists>st'. check_documents h reqs st docs = Inr st' \<and>
           valid st' =
             (valid st \<and>
              \<not> (\<exists>d\<in>set (objects docs).
                    file_type_mismatch reqs d \<or> file_size_excess h reqs d)) \<and>
           missingMandatory st' = missingMandatory st \<and>
           invalidDocuments st' =
             invalidDocuments st @
               List.map_filter (invalid_entry_of h reqs) (objects docs) \<and>
           validDocuments st' =
             validDocuments st @ List.map_filter (valid_entry_of h reqs) (objects docs)"
  using assms
proof (induction docs arbitrary: st)
  case Nil
  show ?case by (simp add: map_filter_simps)
next
  case (Cons e docs)
  from Cons.prems obtain d where e: "e = Document d"
    by (cases e) (simp_all add: validation_raises_simps)
  from Cons.prems e have nd: "\<not> document_raises reqs d"
    and nt: "\<not> validation_raises reqs docs"
    by (simp_all add: validation_raises_simps)
  from check_object_returns [OF nd, of h st]
  obtain st1 where st1: "check_object h reqs st d = Inr st1"
    and v1: "valid st1 =
      (valid st \<and> \<not> file_type_mismatch reqs d \<and> \<not> file_size_excess h reqs d)"
    and m1: "missingMandatory st1 = missingMandatory st"
    and i1: "invalidDocuments st1 =
      invalidDocuments st @
        (case invalid_entry_of h reqs d of None \<Rightarrow> [] | Some e \<Rightarrow> [e])"
    and d1: "validDocuments st1 =
      validDocuments st @
        (case valid_entry_of h reqs d of None \<Rightarrow> [] | Some e \<Rightarrow> [e])"
    by blast
  from Cons.IH [OF nt, of st1]
  obtain st2 where st2: "check_documents h reqs st1 docs = Inr st2"
    and v2: "valid st2 =
      (valid st1 \<and>
       \<not> (\<exists>d\<in>set (objects docs).
             file_type_mismatch reqs d \<or> file_size_excess h reqs d))"
    and m2: "missingMandatory st2 = missingMandatory st1"
    and i2: "invalidDocuments st2 =
      invalidDocuments st1 @ List.map_filter (invalid_entry_of h reqs) (objects docs)"
    and d2: "validDocuments st2 =
      validDocuments st1 @ List.map_filter (valid_entry_of h reqs) (objects docs)"
    by blast
  have "check_documents h reqs st (e # docs) = Inr st2"
    using st1 st2 e by simp
  moreover have "valid st2 =
      (valid st \<and>
       \<not> (\<exists>d\<in>set (objects (e # docs)).
             file_type_mismatch reqs d \<or> file_size_excess h reqs d))"
    using v1 v2 e by auto
  moreover have "missingMandatory st2 = missingMandatory st"
    using m1 m2 by simp
  moreover have "invalidDocuments st2 =
      invalidDocuments st @
        List.map_filter (invalid_entry_of h reqs) (objects (e # docs))"
    using i1 i2 e by (simp add: map_filter_simps split: option.splits)
  moreover have "validDocuments st2 =
      validDocuments st @ List.map_filter (valid_entry_of h reqs) (objects (e # docs))"
    using d1 d2 e by (simp add: map_filter_simps split: option.splits)
  ultimately show ?case by blast
qed

text \<open>
  The whole of \<^verbatim>\<open>validateDocuments\<close> on an array: the error result when the validation
  raises, and otherwise the result of the two passes, list by list.
\<close>

lemma validateDocuments_raises:
  assumes "validation_raises reqs docs"
  shows "validateDocuments h reqs (Some docs) =
           Inr (ValidationFailed ''Error validating documents''
                  ''An error occurred during document validation'')"
proof (cases "check_mandatories docs
    \<lparr>valid = True, validDocuments = [], invalidDocuments = [], missingMandatory = []\<rparr> reqs")
  case (Inl e)
  then show ?thesis by (simp add: validateDocuments_def try_catch_def)
next
  case (Inr st0)
  with check_documents_raises [OF assms, of h st0] show ?thesis
    by (simp add: validateDocuments_def try_catch_def)
qed

lemma validateDocuments_returns:
  assumes "\<not> validation_raises reqs docs"
  shows "\<exists>result.
           validateDocuments h reqs (Some docs) =
             Inr (Validated result (result_message result)) \<and>
           valid result =
             (\<not> (\<exists>r\<in>set reqs. mandatory_missing (objects docs) r) \<and>
              \<not> (\<exists>d\<in>set (objects docs).
                    file_type_mismatch reqs d \<or> file_size_excess h reqs d)) \<and>
           missingMandatory result =
             map mandatory_entry_of (filter (mandatory_missing (objects docs)) reqs) \<and>
           invalidDocuments result =
             List.map_filter (invalid_entry_of h reqs) (objects docs) \<and>
           validDocuments result = List.map_filter (valid_entry_of h reqs) (objects docs)"
proof -
  let ?st = "\<lparr>valid = \<not> (\<exists>r\<in>set reqs. mandatory_missing (objects docs) r),
      validDocuments = [], invalidDocuments = [],
      missingMandatory =
        map mandatory_entry_of (filter (mandatory_missing (objects docs)) reqs)\<rparr>"
  from assms have nn: "Null \<notin> set docs"
    using validation_raises_Null [of docs reqs] by blast
  have fp: "check_mandatories docs
      \<lparr>valid = True, validDocuments = [], invalidDocuments = [], missingMandatory = []\<rparr>
      reqs = Inr ?st"
    by (simp add: check_mandatories_objects [OF nn])
  from check_documents_returns [OF assms, of h ?st]
  obtain st' where r: "check_documents h reqs ?st docs = Inr st'"
    and v: "valid st' =
      (valid ?st \<and>
       \<not> (\<exists>d\<in>set (objects docs).
             file_type_mismatch reqs d \<or> file_size_excess h reqs d))"
    and m: "missingMandatory st' = missingMandatory ?st"
    and i: "invalidDocuments st' =
      invalidDocuments ?st @ List.map_filter (invalid_entry_of h reqs) (objects docs)"
    and d: "validDocuments st' =
      validDocuments ?st @ List.map_filter (valid_entry_of h reqs) (objects docs)"
    by blast
  have "validateDocuments h reqs (Some docs) = Inr (Validated st' (result_message st'))"
    using fp r by (simp add: validateDocuments_def try_catch_def)
  moreover have "valid st' =
      (\<not> (\<exists>r\<in>set reqs. mandatory_missing (objects docs) r) \<and>
       \<not> (\<exists>d\<in>set (objects docs).
             file_type_mismatch reqs d \<or> file_size_excess h reqs d))"
    using v by simp
  moreover have "missingMandatory st' =
      map mandatory_entry_of (filter (mandatory_missing (objects docs)) reqs)"
    using m by simp
  moreover have "invalidDocuments st' =
      List.map_filter (invalid_entry_of h reqs) (objects docs)"
    using i by simp
  moreover have "validDocuments st' =
      List.map_filter (valid_entry_of h reqs) (objects docs)"
    using d by simp
  ultimately show ?thesis by blast
qed

lemma well_formed_never_raises:
  "list_all well_formed docs \<Longrightarrow> \<not> validation_raises reqs docs"
proof (induction docs)
  case Nil
  show ?case by (simp add: validation_raises_simps)
next
  case (Cons e docs)
  then show ?case
    by (cases e)
       (auto simp add: validation_raises_simps document_raises_def size_raises_def
          split: option.splits)
qed

text \<open>
  The claim C6 says that only a file type that is not allowed, a size over the limit and a
  missing mandatory requirement make \<^verbatim>\<open>valid\<close> false. A document without a
  \<^verbatim>\<open>file\<close>, under a requirement that restricts the file types, is none of the three, and
  the answer is \<^verbatim>\<open>valid: false\<close>: \<^verbatim>\<open>document.file.split\<close> raises, and the \<^verbatim>\<open>catch\<close>
  block answers.
\<close>

theorem missing_file_counterexample:
  "validateDocuments example_host
     [\<lparr>documentType = ''aadhar'', requirement_name = (\<lambda>l. None)(L_en := Some ''Aadhaar card''),
       isMandatory = True, allowedFileTypes = [''pdf''], maxFileSizeKB = Some 500\<rparr>]
     (Some [Document \<lparr>doc_type = JStr ''aadhar'', doc_file = JUndefined,
                      doc_sizeKB = JNum (JFin 100)\<rparr>]) =
   Inr (ValidationFailed ''Error validating documents''
          ''An error occurred during document validation'') \<and>
   \<not> result_valid (ValidationFailed ''Error validating documents''
          ''An error occurred during document validation'') \<and>
   \<not> mandatory_missing
       [\<lparr>doc_type = JStr ''aadhar'', doc_file = JUndefined, doc_sizeKB = JNum (JFin 100)\<rparr>]
       \<lparr>documentType = ''aadhar'', requirement_name = (\<lambda>l. None)(L_en := Some ''Aadhaar card''),
        isMandatory = True, allowedFileTypes = [''pdf''], maxFileSizeKB = Some 500\<rparr> \<and>
   \<not> file_type_mismatch
       [\<lparr>documentType = ''aadhar'', requirement_name = (\<lambda>l. None)(L_en := Some ''Aadhaar card''),
         isMandatory = True, allowedFileTypes = [''pdf''], maxFileSizeKB = Some 500\<rparr>]
       \<lparr>doc_type = JStr ''aadhar'', doc_file = JUndefined, doc_sizeKB = JNum (JFin 100)\<rparr> \<and>
   \<not> file_size_excess example_host
       [\<lparr>documentType = ''aadhar'', requirement_name = (\<lambda>l. None)(L_en := Some ''Aadhaar card''),
         isMandatory = True, allowedFileTypes = [''pdf''], maxFileSizeKB = Some 500\<rparr>]
       \<lparr>doc_type = JStr ''aadhar'', doc_file = JUndefined, doc_sizeKB = JNum (JFin 100)\<rparr>"
  by code_simp

text \<open>
  C6, amended. For every list of requirements and every array of submitted documents,
  \<^verbatim>\<open>validateDocuments\<close> returns a result, and \<^verbatim>\<open>valid\<close> is false in it exactly when
  the validation raises, or a mandatory requirement is matched by no submitted document,
  or a document has a file type that its requirement does not allow, or a size over the
  limit of its requirement. The validation raises when an element of the array is
  \<^verbatim>\<open>null\<close>, when the requirement of a document restricts the file types and its
  \<^verbatim>\<open>file\<close> is not a string, and when the file type of a document is accepted, its
  requirement has a size limit and its \<^verbatim>\<open>sizeKB\<close> does not convert to a primitive; the
  result is then that of the \<^verbatim>\<open>catch\<close> block, without any list. Otherwise the result
  holds the three lists: every mandatory requirement without a matching document is in
  \<^verbatim>\<open>missingMandatory\<close>, in the order of the service, even when every submitted document
  passes; every document adds its entry to \<^verbatim>\<open>invalidDocuments\<close> or to
  \<^verbatim>\<open>validDocuments\<close>, in the order of the submission. A document whose type matches no
  requirement is listed in \<^verbatim>\<open>invalidDocuments\<close> as not required for the service, and is
  none of the causes of \<^verbatim>\<open>valid = false\<close>. The validation does not raise when every
  element is a document with a string as \<^verbatim>\<open>file\<close> and a \<^verbatim>\<open>sizeKB\<close> that converts.
\<close>

theorem validateDocuments_valid:
  "\<exists>r. validateDocuments h reqs (Some docs) = Inr r \<and>
     result_valid r =
       (\<not> validation_raises reqs docs \<and>
        \<not> (\<exists>q\<in>set reqs. mandatory_missing (objects docs) q) \<and>
        \<not> (\<exists>d\<in>set (objects docs).
              file_type_mismatch reqs d \<or> file_size_excess h reqs d)) \<and>
     (validation_raises reqs docs \<longrightarrow>
        r = ValidationFailed ''Error validating documents''
              ''An error occurred during document validation'') \<and>
     (\<not> validation_raises reqs docs \<longrightarrow>
        (\<exists>result.
           r = Validated result (result_message result) \<and>
           missingMandatory result =
             map mandatory_entry_of (filter (mandatory_missing (objects docs)) reqs) \<and>
           invalidDocuments result =
             List.map_filter (invalid_entry_of h reqs) (objects docs) \<and>
           validDocuments result =
             List.map_filter (valid_entry_of h reqs) (objects docs))) \<and>
     (\<forall>d\<in>set (objects docs). not_required reqs d \<longrightarrow>
        invalid_entry_of h reqs d = Some (not_required_entry d) \<and>
        \<not> document_raises reqs d \<and> \<not> file_type_mismatch reqs d \<and>
        \<not> file_size_excess h reqs d) \<and>
     (list_all well_formed docs \<longrightarrow> \<not> validation_raises reqs docs)"
proof -
  have n: "\<forall>d\<in>set (objects docs). not_required reqs d \<longrightarrow>
        invalid_entry_of h reqs d = Some (not_required_entry d) \<and>
        \<not> document_raises reqs d \<and> \<not> file_type_mismatch reqs d \<and>
        \<not> file_size_excess h reqs d"
    by (simp add: not_required_def invalid_entry_of_def document_raises_def
        file_type_mismatch_def file_size_excess_def)
  have w: "list_all well_formed docs \<longrightarrow> \<not> validation_raises reqs docs"
    using well_formed_never_raises [of docs reqs] by blast
  show ?thesis
  proof (cases "validation_raises reqs docs")
    case True
    from validateDocuments_raises [OF True, of h]
    have "validateDocuments h reqs (Some docs) =
        Inr (ValidationFailed ''Error validating documents''
               ''An error occurred during document validation'')" .
    with True n w show ?thesis by simp
  next
    case False
    from validateDocuments_returns [OF False, of h]
    obtain result where
      "validateDocuments h reqs (Some docs) = Inr (Validated result (result_message result))"
      "valid result =
         (\<not> (\<exists>r\<in>set reqs. mandatory_missing (objects docs) r) \<and>
          \<not> (\<exists>d\<in>set (objects docs).
                file_type_mismatch reqs d \<or> file_size_excess h reqs d))"
      "missingMandatory result =
         map mandatory_entry_of (filter (mandatory_missing (objects docs)) reqs)"
      "invalidDocuments result = List.map_filter (invalid_entry_of h reqs) (objects docs)"
      "validDocuments result = List.map_filter (valid_entry_of h reqs) (objects docs)"
      by blast
    with False n w show ?thesis by simp
  qed
qed

text \<open>
  The mandatory \<^verbatim>\<open>aadhar\<close> requirement is absent from a submission of a \<^verbatim>\<open>pan\<close> card
  that passes its checks and of a voter card that the service does not require:
  \<^verbatim>\<open>valid\<close> is false, \<^verbatim>\<open>missingMandatory\<close> holds the requirement and
  \<^verbatim>\<open>invalidDocuments\<close> the voter card. With a \<^verbatim>\<open>pan\<close> card whose \<^verbatim>\<open>file\<close> is a
  number, and with an array that holds \<^verbatim>\<open>null\<close>, the answer is that of the \<^verbatim>\<open>catch\<close>
  block.
\<close>

theorem validateDocuments_valid_witness:
  "validateDocuments example_host
     [\<lparr>documentType = ''aadhar'', requirement_name = (\<lambda>l. None)(L_en := Some ''Aadhaar card''),
       isMandatory = True, allowedFileTypes = [''pdf''], maxFileSizeKB = Some 500\<rparr>,
      \<lparr>documentType = ''pan'', requirement_name = (\<lambda>l. None)(L_en := Some ''PAN card''),
       isMandatory = False, allowedFileTypes = [''pdf''], maxFileSizeKB = Some 500\<rparr>]
     (Some [Document \<lparr>doc_type = JStr ''pan'', doc_file = JStr ''pan.PDF'',
                      doc_sizeKB = JNum (JFin 120)\<rparr>,
            Document \<lparr>doc_type = JStr ''voter'', doc_file = JStr ''voter.exe'',
                      doc_sizeKB = JNum (JFin 9000)\<rparr>]) =
   Inr (Validated
     \<lparr>valid = False,
      validDocuments = [\<lparr>valid_type = JStr ''pan'', valid_name = Some ''PAN card''\<rparr>],
      invalidDocuments =
        [\<lparr>invalid_type = JStr ''voter'',
          invalid_reason = ''Document type not required for this service''\<rparr>],
      missingMandatory =
        [\<lparr>mandatory_type = ''aadhar'', mandatory_name = Some ''Aadhaar card''\<rparr>]\<rparr>
     ''Missing mandatory documents'') \<and>
   validateDocuments example_host
     [\<lparr>documentType = ''aadhar'', requirement_name = (\<lambda>l. None)(L_en := Some ''Aadhaar card''),
       isMandatory = True, allowedFileTypes = [''pdf''], maxFileSizeKB = Some 500\<rparr>,
      \<lparr>documentType = ''pan'', requirement_name = (\<lambda>l. None)(L_en := Some ''PAN card''),
       isMandatory = False, allowedFileTypes = [''pdf''], maxFileSizeKB = Some 500\<rparr>]
     (Some [Document \<lparr>doc_type = JStr ''pan'', doc_file = JNum (JFin 7),
                      doc_sizeKB = JNum (JFin 120)\<rparr>]) =
   Inr (ValidationFailed ''Error validating documents''
          ''An error occurred during document validation'') \<and>
   validateDocuments example_host
     [\<lparr>documentType = ''aadhar'', requirement_name = (\<lambda>l. None)(L_en := Some ''Aadhaar card''),
       isMandatory = True, allowedFileTypes = [''pdf''], maxFileSizeKB = Some 500\<rparr>,
      \<lparr>documentType = ''pan'', requirement_name = (\<lambda>l. None)(L_en := Some ''PAN card''),
       isMandatory = False, allowedFileTypes = [''pdf''], maxFileSizeKB = Some 500\<rparr>]
     (Some [Document \<lparr>doc_type = JStr ''aadhar'', doc_file = JStr ''aadhar.pdf'',
                      doc_sizeKB = JNum (JFin 120)\<rparr>, Null]) =
   Inr (ValidationFailed ''Error validating documents''
          ''An error occurred during document validation'')"
proof -
  let ?reqs = "[\<lparr>documentType = ''aadhar'',
       requirement_name = (\<lambda>l. None)(L_en := Some ''Aadhaar card''),
       isMandatory = True, allowedFileTypes = [''pdf''], maxFileSizeKB = Some 500\<rparr>,
      \<lparr>documentType = ''pan'', requirement_name = (\<lambda>l. None)(L_en := Some ''PAN card''),
       isMandatory = False, allowedFileTypes = [''pdf''], maxFileSizeKB = Some 500\<rparr>]"
  let ?docs = "[Document \<lparr>doc_type = JStr ''pan'', doc_file = JStr ''pan.PDF'',
                      doc_sizeKB = JNum (JFin 120)\<rparr>,
            Document \<lparr>doc_type = JStr ''voter'', doc_file = JStr ''voter.exe'',
                      doc_sizeKB = JNum (JFin 9000)\<rparr>]"
  let ?bad = "[Document \<lparr>doc_type = JStr ''pan'', doc_file = JNum (JFin 7),
                      doc_sizeKB = JNum (JFin 120)\<rparr>]"
  let ?nul = "[Document \<lparr>doc_type = JStr ''aadhar'', doc_file = JStr ''aadhar.pdf'',
                      doc_sizeKB = JNum (JFin 120)\<rparr>, Null]"
  have nr: "\<not> validation_raises ?reqs ?docs"
    by (simp add: validation_raises_simps document_raises_def requirement_for_def
        has_file_def file_type_mismatch_def size_raises_def)
  have mm: "map mandatory_entry_of (filter (mandatory_missing (objects ?docs)) ?reqs) =
      [\<lparr>mandatory_type = ''aadhar'', mandatory_name = Some ''Aadhaar card''\<rparr>]"
    by (simp add: mandatory_missing_def mandatory_entry_of_def)
  have iv: "List.map_filter (invalid_entry_of example_host ?reqs) (objects ?docs) =
      [\<lparr>invalid_type = JStr ''voter'',
        invalid_reason = ''Document type not required for this service''\<rparr>]"
    by code_simp
  have vd: "List.map_filter (valid_entry_of example_host ?reqs) (objects ?docs) =
      [\<lparr>valid_type = JStr ''pan'', valid_name = Some ''PAN card''\<rparr>]"
    by code_simp
  have ms: "\<exists>q\<in>set ?reqs. mandatory_missing (objects ?docs) q"
    by (simp add: mandatory_missing_def)
  from validateDocuments_valid [of example_host ?reqs ?docs] nr
  obtain result where r: "validateDocuments example_host ?reqs (Some ?docs) =
      Inr (Validated result (result_message result))"
    and v: "valid result =
       (\<not> (\<exists>q\<in>set ?reqs. mandatory_missing (objects ?docs) q) \<and>
        \<not> (\<exists>d\<in>set (objects ?docs). file_type_mismatch ?reqs d \<or>
              file_size_excess example_host ?reqs d))"
    and m: "missingMandatory result =
       map mandatory_entry_of (filter (mandatory_missing (objects ?docs)) ?reqs)"
    and i: "invalidDocuments result =
       List.map_filter (invalid_entry_of example_host ?reqs) (objects ?docs)"
    and d: "validDocuments result =
       List.map_filter (valid_entry_of example_host ?reqs) (objects ?docs)"
    by auto
  from v ms have v': "valid result = False" by blast
  have "result =
     \<lparr>valid = False,
      validDocuments = [\<lparr>valid_type = JStr ''pan'', valid_name = Some ''PAN card''\<rparr>],
      invalidDocuments =
        [\<lparr>invalid_type = JStr ''voter'',
          invalid_reason = ''Document type not required for this service''\<rparr>],
      missingMandatory =
        [\<lparr>mandatory_type = ''aadhar'', mandatory_name = Some ''Aadhaar card''\<rparr>]\<rparr>"
    using v' m i d unfolding mm iv vd by (cases result) simp
  then have one: "validateDocuments example_host ?reqs (Some ?docs) =
     Inr (Validated
     \<lparr>valid = False,
      validDocuments = [\<lparr>valid_type = JStr ''pan'', valid_name = Some ''PAN card''\<rparr>],
      invalidDocuments =
        [\<lparr>invalid_type = JStr ''voter'',
          invalid_reason = ''Document type not required for this service''\<rparr>],
      missingMandatory =
        [\<lparr>mandatory_type = ''aadhar'', mandatory_name = Some ''Aadhaar card''\<rparr>]\<rparr>
     ''Missing mandatory documents'')"
    using r by (simp add: result_message_def)
  have br: "validation_raises ?reqs ?bad"
    by (simp add: validation_raises_simps document_raises_def requirement_for_def
        has_file_def)
  from validateDocuments_valid [of example_host ?reqs ?bad] br
  have two: "validateDocuments example_host ?reqs (Some ?bad) =
     Inr (ValidationFailed ''Error validating documents''
            ''An error occurred during document validation'')"
    by auto
  have nu: "validation_raises ?reqs ?nul"
    by (simp add: validation_raises_simps)
  from validateDocuments_valid [of example_host ?reqs ?nul] nu
  have three: "validateDocuments example_host ?reqs (Some ?nul) =
     Inr (ValidationFailed ''Error validating documents''
            ''An error occurred during document validation'')"
    by auto
  from one two three show ?thesis by simp
qed

section \<open>Outcomes are data\<close>












end
